theory Spec2Isabelle
  imports Complex_Main "HOL-Library.Sublist" "HOL-Library.Multiset"
begin

section \<open>Strings\<close>

text \<open>
  JavaScript strings are modelled as \<^typ>\<open>string\<close>: a list of 8-bit code units, which
  covers the Latin-1 range of the UTF-16 code units the program sees.  The operations
  below are the ones of \<^verbatim>\<open>String.prototype\<close> that the program calls.
\<close>

fun toLowerCaseChar :: "char \<Rightarrow> char" where
  "toLowerCaseChar (Char b0 b1 b2 b3 b4 b5 b6 b7) =
     (if b5 then Char b0 b1 b2 b3 b4 b5 b6 b7
      else (let n = (of_char (Char b0 b1 b2 b3 b4 b5 b6 b7) :: nat) in
            if 65 \<le> n \<and> n \<le> 90 then Char b0 b1 b2 b3 b4 True b6 b7
            else if 192 \<le> n \<and> n \<le> 222 \<and> n \<noteq> 215 then Char b0 b1 b2 b3 b4 True b6 b7
            else Char b0 b1 b2 b3 b4 b5 b6 b7))"

definition toLowerCase :: "string \<Rightarrow> string" where
  "toLowerCase s = map toLowerCaseChar s"

fun startsWith :: "string \<Rightarrow> string \<Rightarrow> bool" where
  "startsWith s [] = True"
| "startsWith [] (c # cs) = False"
| "startsWith (x # xs) (c # cs) = (if x = c then startsWith xs cs else False)"

fun str_includes :: "string \<Rightarrow> string \<Rightarrow> bool" where
  "str_includes [] sub = startsWith [] sub"
| "str_includes (x # xs) sub = (if startsWith (x # xs) sub then True else str_includes xs sub)"

text \<open>
  The white space of \<^verbatim>\<open>\s\<close> and of \<^verbatim>\<open>trim()\<close> in this range: TAB, LF, VT, FF, CR,
  SPACE and NBSP.
\<close>

definition isWhiteSpace :: "char \<Rightarrow> bool" where
  "isWhiteSpace c =
     (c = CHR 0x09 \<or> c = CHR 0x0A \<or> c = CHR 0x0B \<or> c = CHR 0x0C \<or> c = CHR 0x0D
      \<or> c = CHR 0x20 \<or> c = CHR 0xA0)"

definition trim :: "string \<Rightarrow> string" where
  "trim s = rev (dropWhile isWhiteSpace (rev (dropWhile isWhiteSpace s)))"

text \<open>
  \<^verbatim>\<open>text.split(/[class]{n,}/)\<close> for \<open>n \<ge> 1\<close>: the separators are the maximal runs of at
  least \<open>n\<close> characters of the class.  \<open>cur\<close> is the piece being read, \<open>run\<close> the run
  of class characters read after it.  As in JavaScript, a separator at either end of the
  text yields an empty piece there, and the empty text yields one empty piece.
\<close>

fun splitRuns :: "(char \<Rightarrow> bool) \<Rightarrow> nat \<Rightarrow> string \<Rightarrow> string \<Rightarrow> string \<Rightarrow> string list" where
  "splitRuns sep n cur run [] =
     (if run \<noteq> [] \<and> n \<le> length run then [cur, []] else [cur @ run])"
| "splitRuns sep n cur run (c # cs) =
     (if sep c then splitRuns sep n cur (run @ [c]) cs
      else if run \<noteq> [] \<and> n \<le> length run then cur # splitRuns sep n [c] [] cs
      else splitRuns sep n (cur @ run @ [c]) [] cs)"

definition split_regex :: "(char \<Rightarrow> bool) \<Rightarrow> nat \<Rightarrow> string \<Rightarrow> string list" where
  "split_regex sep n text = splitRuns sep n [] [] text"

section \<open>Idiom scanner: dictionary mode\<close>

text \<open>
  The idiom table of \<^verbatim>\<open>idioms-dictionary.js\<close>, in the order of
  \<^verbatim>\<open>Object.entries\<close> (insertion order: no key is an array index).
\<close>

definition IDIOMS_DICTIONARY :: "(string \<times> string) list" where
  "IDIOMS_DICTIONARY = [
    (''a hot potato'', ''a disputed issue that many people are talking about''),
    (''a penny for your thoughts'', ''asking what someone is thinking''),
    (''actions speak louder than words'', ''intentions are judged by actions not words''),
    (''add insult to injury'', ''make a bad situation worse''),
    (''an arm and a leg'', ''very expensive''),
    (''as right as rain'', ''perfect or in good health''),
    (''at the drop of a hat'', ''without any hesitation''),
    (''back to the drawing board'', ''start over after a failure''),
    (''ball is in your court'', ''it is your decision''),
    (''barking up the wrong tree'', ''looking in the wrong place''),
    (''be glad to see the back of'', ''be happy when a person leaves''),
    (''beat around the bush'', ''avoiding the main topic''),
    (''best of both worlds'', ''all the advantages''),
    (''best thing since sliced bread'', ''a good invention or innovation''),
    (''bite off more than you can chew'', ''take on a task that is too big''),
    (''blessing in disguise'', ''something good that is not recognized at first''),
    (''break a leg'', ''good luck''),
    (''burn the midnight oil'', ''work late into the night''),
    (''by the skin of your teeth'', ''just barely''),
    (''can't judge a book by its cover'', ''cannot judge by appearance''),
    (''caught between two stools'', ''difficult to choose between two alternatives''),
    (''come rain or shine'', ''no matter what happens''),
    (''costs an arm and a leg'', ''very expensive''),
    (''cross that bridge when you come to it'', ''deal with a problem when it happens''),
    (''cry over spilt milk'', ''complain about a loss from the past''),
    (''curiosity killed the cat'', ''being inquisitive can lead to trouble''),
    (''cut corners'', ''done badly to save money''),
    (''cut the mustard'', ''succeed or meet expectations''),
    (''devil's advocate'', ''present a counter argument''),
    (''don't count your chickens before the eggs have hatched'', ''do not make plans for something that might not happen''),
    (''don't give up the day job'', ''you are not very good at something''),
    (''don't put all your eggs in one basket'', ''do not put all resources in one possibility''),
    (''drastic times call for drastic measures'', ''desperate situations need drastic actions''),
    (''elvis has left the building'', ''the show has come to an end''),
    (''every cloud has a silver lining'', ''be optimistic even in difficult times''),
    (''far cry from'', ''very different from''),
    (''feel a bit under the weather'', ''feeling slightly ill''),
    (''give the benefit of the doubt'', ''believe someone without proof''),
    (''go back to the drawing board'', ''start over''),
    (''go down in flames'', ''fail spectacularly''),
    (''get out of hand'', ''become uncontrollable''),
    (''get your act together'', ''organize yourself''),
    (''give someone the cold shoulder'', ''ignore someone''),
    (''hear it on the grapevine'', ''hear rumors''),
    (''hit the nail on the head'', ''do or say something exactly right''),
    (''hit the sack'', ''go to bed''),
    (''hit the sheets'', ''go to bed''),
    (''hit the hay'', ''go to bed''),
    (''hang in there'', ''persevere''),
    (''in the heat of the moment'', ''overwhelmed by what is happening''),
    (''it takes two to tango'', ''actions need more than one person''),
    (''jump on the bandwagon'', ''join a popular trend''),
    (''keep something at bay'', ''keep something away''),
    (''kill two birds with one stone'', ''accomplish two things at the same time''),
    (''last straw'', ''the final problem in a series''),
    (''let sleeping dogs lie'', ''do not disturb a situation''),
    (''let the cat out of the bag'', ''share information that was concealed''),
    (''let someone off the hook'', ''not punish someone''),
    (''make a long story short'', ''come to the point''),
    (''method to my madness'', ''there is structure to my approach''),
    (''miss the boat'', ''miss your chance''),
    (''not a spark of decency'', ''no manners''),
    (''not playing with a full deck'', ''lacks intelligence''),
    (''no pain, no gain'', ''hard work brings rewards''),
    (''off one's rocker'', ''crazy or demented''),
    (''on the ball'', ''understands the situation well''),
    (''once in a blue moon'', ''happens very rarely''),
    (''picture paints a thousand words'', ''visual presentation is more descriptive''),
    (''piece of cake'', ''easy or simple task''),
    (''pull someone's leg'', ''joke with someone or tease them''),
    (''pull yourself together'', ''calm down''),
    (''put wool over other people's eyes'', ''deceive someone''),
    (''sat on the fence'', ''not make a decision''),
    (''see eye to eye'', ''agree on something''),
    (''sit on the fence'', ''not make a decision''),
    (''speak of the devil'', ''the person being talked about arrives''),
    (''steal someone's thunder'', ''take credit for what someone else did''),
    (''so far so good'', ''everything is okay''),
    (''spill the beans'', ''reveal a secret''),
    (''take with a grain of salt'', ''do not take too seriously''),
    (''take with a pinch of salt'', ''do not take too seriously''),
    (''taste of your own medicine'', ''something you did to others happens to you''),
    (''through thick and thin'', ''in good times and bad times''),
    (''to hear something straight from the horse's mouth'', ''hear from the authoritative source''),
    (''the ball is in your court'', ''it is your decision''),
    (''the best of both worlds'', ''ideal situation''),
    (''the last straw'', ''the final problem''),
    (''that ship has sailed'', ''that opportunity is gone''),
    (''throw in the towel'', ''give up''),
    (''under the weather'', ''feeling sick''),
    (''whole nine yards'', ''everything''),
    (''wouldn't be caught dead'', ''would never like to do something''),
    (''you can say that again'', ''I agree completely''),
    (''your guess is as good as mine'', ''I do not know the answer'')]"

text \<open>
  The result object \<^verbatim>\<open>{hasIdiom, idiom, literal}\<close>; the two strings are absent in
  \<^verbatim>\<open>{hasIdiom: false}\<close>.
\<close>

record idiom_result =
  hasIdiom :: bool
  idiom :: "string option"
  literal :: "string option"

definition no_idiom :: idiom_result where
  "no_idiom = \<lparr>hasIdiom = False, idiom = None, literal = None\<rparr>"

definition found_idiom :: "string \<Rightarrow> string \<Rightarrow> idiom_result" where
  "found_idiom k v = \<lparr>hasIdiom = True, idiom = Some k, literal = Some v\<rparr>"

text \<open>The \<^verbatim>\<open>for (const [idiom, literal] of sortedIdioms)\<close> loop.\<close>

fun scan_idioms :: "string \<Rightarrow> (string \<times> string) list \<Rightarrow> idiom_result" where
  "scan_idioms lowerSentence [] = no_idiom"
| "scan_idioms lowerSentence ((k, v) # rest) =
     (if str_includes lowerSentence (toLowerCase k) then found_idiom k v
      else scan_idioms lowerSentence rest)"

text \<open>
  \<^verbatim>\<open>Array.prototype.sort\<close> is stable, and the comparator
  \<^verbatim>\<open>(a, b) => b[0].length - a[0].length\<close> orders by descending key length:
  a stable sort on the negated length.
\<close>

definition sortedIdioms :: "(string \<times> string) list \<Rightarrow> (string \<times> string) list" where
  "sortedIdioms idioms = sort_key (\<lambda>e. - int (length (fst e))) idioms"

text \<open>
  \<^verbatim>\<open>fallbackIdiomDetection(sentence)\<close>.  The first argument is
  \<^verbatim>\<open>window.IDIOMS_DICTIONARY\<close>: \<open>None\<close> when the global is absent.
\<close>

definition fallbackIdiomDetection ::
  "(string \<times> string) list option \<Rightarrow> string \<Rightarrow> idiom_result" where
  "fallbackIdiomDetection window_dict sentence =
     (let idioms = (case window_dict of None \<Rightarrow> [] | Some d \<Rightarrow> d);
          idiomCount = length idioms
      in if idiomCount = 0 then no_idiom
         else scan_idioms (toLowerCase sentence) (sortedIdioms idioms))"

section \<open>Readability metrics\<close>

text \<open>
  JavaScript numbers.  \<open>Fin\<close> carries the exact value of a finite result (the rounding
  of IEEE doubles is not modelled: it moves finite values only, and is left to the reading
  of \<^verbatim>\<open>toFixed\<close> below); \<open>NaN\<close> and the two infinities are values of their own, with
  the IEEE rules for the operations the program uses.
  Divisors are array lengths, so a zero divisor is \<open>+0\<close>.
\<close>

datatype jsnum = NaN | NegInf | Fin rat | PosInf

fun jneg :: "jsnum \<Rightarrow> jsnum" where
  "jneg NaN = NaN"
| "jneg NegInf = PosInf"
| "jneg PosInf = NegInf"
| "jneg (Fin a) = Fin (- a)"

fun jadd :: "jsnum \<Rightarrow> jsnum \<Rightarrow> jsnum" where
  "jadd NaN y = NaN"
| "jadd x NaN = NaN"
| "jadd PosInf NegInf = NaN"
| "jadd NegInf PosInf = NaN"
| "jadd PosInf y = PosInf"
| "jadd x PosInf = PosInf"
| "jadd NegInf y = NegInf"
| "jadd x NegInf = NegInf"
| "jadd (Fin a) (Fin b) = Fin (a + b)"

definition jsub :: "jsnum \<Rightarrow> jsnum \<Rightarrow> jsnum" where
  "jsub x y = jadd x (jneg y)"

definition signed_inf :: "bool \<Rightarrow> jsnum" where
  "signed_inf positive = (if positive then PosInf else NegInf)"

fun jmul :: "jsnum \<Rightarrow> jsnum \<Rightarrow> jsnum" where
  "jmul NaN y = NaN"
| "jmul x NaN = NaN"
| "jmul (Fin a) (Fin b) = Fin (a * b)"
| "jmul (Fin a) PosInf = (if a = 0 then NaN else signed_inf (0 < a))"
| "jmul (Fin a) NegInf = (if a = 0 then NaN else signed_inf (a < 0))"
| "jmul PosInf (Fin b) = (if b = 0 then NaN else signed_inf (0 < b))"
| "jmul NegInf (Fin b) = (if b = 0 then NaN else signed_inf (b < 0))"
| "jmul PosInf PosInf = PosInf"
| "jmul NegInf NegInf = PosInf"
| "jmul PosInf NegInf = NegInf"
| "jmul NegInf PosInf = NegInf"

fun jdiv :: "jsnum \<Rightarrow> jsnum \<Rightarrow> jsnum" where
  "jdiv NaN y = NaN"
| "jdiv x NaN = NaN"
| "jdiv (Fin a) (Fin b) =
     (if b = 0 then (if a = 0 then NaN else signed_inf (0 < a)) else Fin (a / b))"
| "jdiv (Fin a) PosInf = Fin 0"
| "jdiv (Fin a) NegInf = Fin 0"
| "jdiv PosInf (Fin b) = signed_inf (0 \<le> b)"
| "jdiv NegInf (Fin b) = signed_inf (b < 0)"
| "jdiv x y = NaN"

text \<open>\<^verbatim>\<open>Math.min\<close> and \<^verbatim>\<open>Math.max\<close> of two arguments: \<open>NaN\<close> if either is.\<close>

fun jmin :: "jsnum \<Rightarrow> jsnum \<Rightarrow> jsnum" where
  "jmin NaN y = NaN"
| "jmin x NaN = NaN"
| "jmin NegInf y = NegInf"
| "jmin x NegInf = NegInf"
| "jmin PosInf y = y"
| "jmin x PosInf = x"
| "jmin (Fin a) (Fin b) = Fin (min a b)"

fun jmax :: "jsnum \<Rightarrow> jsnum \<Rightarrow> jsnum" where
  "jmax NaN y = NaN"
| "jmax x NaN = NaN"
| "jmax PosInf y = PosInf"
| "jmax x PosInf = PosInf"
| "jmax NegInf y = y"
| "jmax x NegInf = x"
| "jmax (Fin a) (Fin b) = Fin (max a b)"

text \<open>
  \<^verbatim>\<open>x.toFixed(2)\<close> is a string; the model keeps the number that string denotes, which
  is what \<^verbatim>\<open>Math.min\<close> and the comparisons read from it.  For a finite \<open>x\<close> the
  digits printed are those of the double the program has computed, rounded to two places by
  the engine, and neither the double nor that rounding is modelled: the argument
  \<open>fixed\<close> gives, for the exact value \<open>a\<close> of the arithmetic, the number that the
  engine prints there.  The other values give \<^verbatim>\<open>"NaN"\<close>, \<^verbatim>\<open>"Infinity"\<close> and
  \<^verbatim>\<open>"-Infinity"\<close>, whatever the engine.
\<close>

fun toFixed2 :: "(rat \<Rightarrow> rat) \<Rightarrow> jsnum \<Rightarrow> jsnum" where
  "toFixed2 fixed (Fin a) = Fin (fixed a)"
| "toFixed2 fixed x = x"

text \<open>The comparisons \<^verbatim>\<open>x > c\<close> and \<^verbatim>\<open>x < c\<close> against a finite constant.\<close>

fun jgreater :: "jsnum \<Rightarrow> rat \<Rightarrow> bool" where
  "jgreater NaN c = False"
| "jgreater NegInf c = False"
| "jgreater PosInf c = True"
| "jgreater (Fin a) c = (c < a)"

fun jless :: "jsnum \<Rightarrow> rat \<Rightarrow> bool" where
  "jless NaN c = False"
| "jless PosInf c = False"
| "jless NegInf c = True"
| "jless (Fin a) c = (a < c)"

text \<open>A number in the closed interval from \<open>lo\<close> to \<open>hi\<close>.\<close>

fun in_interval :: "rat \<Rightarrow> rat \<Rightarrow> jsnum \<Rightarrow> bool" where
  "in_interval lo hi (Fin a) = (lo \<le> a \<and> a \<le> hi)"
| "in_interval lo hi x = False"

subsection \<open>Syllables\<close>

definition is_laeiouy :: "char \<Rightarrow> bool" where
  "is_laeiouy c =
     (c = CHR ''l'' \<or> c = CHR ''a'' \<or> c = CHR ''e'' \<or> c = CHR ''i'' \<or> c = CHR ''o''
      \<or> c = CHR ''u'' \<or> c = CHR ''y'')"

definition is_aeiouy :: "char \<Rightarrow> bool" where
  "is_aeiouy c =
     (c = CHR ''a'' \<or> c = CHR ''e'' \<or> c = CHR ''i'' \<or> c = CHR ''o'' \<or> c = CHR ''u''
      \<or> c = CHR ''y'')"

text \<open>
  \<^verbatim>\<open>word.replace(/(?:[^laeiouy]es|ed|[^laeiouy]e)$/, '')\<close>: the leftmost match wins, so
  the three-character alternative is tried at the third character from the end before
  the two-character ones at the second.
\<close>

definition strip_suffix :: "string \<Rightarrow> string" where
  "strip_suffix w =
     (let n = length w in
      if 3 \<le> n \<and> w ! (n - 1) = CHR ''s'' \<and> w ! (n - 2) = CHR ''e'' \<and> \<not> is_laeiouy (w ! (n - 3))
        then take (n - 3) w
      else if 2 \<le> n \<and> w ! (n - 1) = CHR ''d'' \<and> w ! (n - 2) = CHR ''e''
        then take (n - 2) w
      else if 2 \<le> n \<and> w ! (n - 1) = CHR ''e'' \<and> \<not> is_laeiouy (w ! (n - 2))
        then take (n - 2) w
      else w)"

text \<open>\<^verbatim>\<open>word.replace(/^y/, '')\<close>.\<close>

fun strip_leading_y :: "string \<Rightarrow> string" where
  "strip_leading_y [] = []"
| "strip_leading_y (c # cs) = (if c = CHR ''y'' then cs else c # cs)"

text \<open>
  The number of matches of \<^verbatim>\<open>/[aeiouy]{1,2}/g\<close>: each match takes two vowels when a
  second one follows.
\<close>

fun vowel_groups :: "string \<Rightarrow> nat" where
  "vowel_groups [] = 0"
| "vowel_groups [c] = (if is_aeiouy c then 1 else 0)"
| "vowel_groups (c # d # cs) =
     (if is_aeiouy c
      then (if is_aeiouy d then 1 + vowel_groups cs else 1 + vowel_groups (d # cs))
      else vowel_groups (d # cs))"

definition countSyllables :: "string \<Rightarrow> nat" where
  "countSyllables word0 =
     (let word = toLowerCase word0 in
      if length word \<le> 3 then 1
      else (let word1 = strip_suffix word;
                word2 = strip_leading_y word1;
                syllables = vowel_groups word2
            in if syllables = 0 then 1 else syllables))"

subsection \<open>Metrics\<close>

record metrics =
  wordCount :: nat
  sentenceCount :: nat
  paragraphCount :: nat
  avgWordLength :: jsnum
  avgSentenceLength :: jsnum
  avgParagraphLength :: jsnum
  fleschScore :: jsnum
  estimatedReadingTime :: nat

definition words_of :: "string \<Rightarrow> string list" where
  "words_of text = filter (\<lambda>w. 0 < length w) (split_regex isWhiteSpace 1 text)"

definition sentences_of :: "string \<Rightarrow> string list" where
  "sentences_of text =
     filter (\<lambda>s. 0 < length (trim s))
       (split_regex (\<lambda>c. c = CHR ''.'' \<or> c = CHR ''!'' \<or> c = CHR ''?'') 1 text)"

definition paragraphs_of :: "string \<Rightarrow> string list" where
  "paragraphs_of text =
     filter (\<lambda>p. 0 < length (trim p)) (split_regex (\<lambda>c. c = CHR 0x0A) 2 text)"

definition num :: "nat \<Rightarrow> jsnum" where
  "num n = Fin (of_nat n)"

definition calculateBasicMetrics :: "(rat \<Rightarrow> rat) \<Rightarrow> string \<Rightarrow> metrics" where
  "calculateBasicMetrics fixed text =
     (let words = words_of text;
          sentences = sentences_of text;
          paragraphs = paragraphs_of text;
          avgWordLength0 =
            jdiv (num (foldl (\<lambda>sum word. sum + length word) 0 words)) (num (length words));
          avgSentenceLength0 = jdiv (num (length words)) (num (length sentences));
          avgParagraphLength0 = jdiv (num (length words)) (num (length paragraphs));
          syllables = foldl (\<lambda>sum word. sum + countSyllables word) 0 words;
          fleschScore0 =
            jsub (jsub (Fin (206835 / 1000)) (jmul (Fin (1015 / 1000)) avgSentenceLength0))
                 (jmul (Fin (846 / 10)) (jdiv (num syllables) (num (length words))))
      in \<lparr>wordCount = length words,
          sentenceCount = length sentences,
          paragraphCount = length paragraphs,
          avgWordLength = toFixed2 fixed avgWordLength0,
          avgSentenceLength = toFixed2 fixed avgSentenceLength0,
          avgParagraphLength = toFixed2 fixed avgParagraphLength0,
          fleschScore = jmax (Fin 0) (jmin (Fin 100) (toFixed2 fixed fleschScore0)),
          estimatedReadingTime = (length words + 199) div 200\<rparr>)"

text \<open>The value of the Flesch formula in \<^verbatim>\<open>calculateBasicMetrics\<close>, before the clamp.\<close>

definition flesch_raw :: "string \<Rightarrow> jsnum" where
  "flesch_raw t =
     jsub (jsub (Fin (206835 / 1000))
             (jmul (Fin (1015 / 1000))
                (jdiv (num (length (words_of t))) (num (length (sentences_of t))))))
          (jmul (Fin (846 / 10))
             (jdiv (num (foldl (\<lambda>sum word. sum + countSyllables word) 0 (words_of t)))
                (num (length (words_of t)))))"

text \<open>
  \<^verbatim>\<open>calculateOverallComplexity(basic, ai)\<close> with \<^verbatim>\<open>ai = null\<close>, as
  \<^verbatim>\<open>analyzeComplexity\<close> calls it.
\<close>

definition calculateOverallComplexity :: "metrics \<Rightarrow> int" where
  "calculateOverallComplexity basic =
     (let score0 = (5::int);
          score1 = (if jgreater (avgSentenceLength basic) 25 then score0 + 2
                    else if jgreater (avgSentenceLength basic) 20 then score0 + 1
                    else if jless (avgSentenceLength basic) 10 then score0 - 1
                    else score0);
          score2 = (if jless (fleschScore basic) 30 then score1 + 2
                    else if jless (fleschScore basic) 50 then score1 + 1
                    else if jgreater (fleschScore basic) 80 then score1 - 1
                    else score1)
      in max 1 (min 10 score2))"

record analysis = metrics +
  overallComplexity :: int

definition analyzeComplexity :: "(rat \<Rightarrow> rat) \<Rightarrow> string \<Rightarrow> analysis" where
  "analyzeComplexity fixed text =
     (let basicMetrics = calculateBasicMetrics fixed text
      in metrics.extend basicMetrics
           (analysis.fields (calculateOverallComplexity basicMetrics)))"


section \<open>The page\<close>

text \<open>
  The document is a store of elements in document order.  An element refers to its parent
  by the parent's position in the store; the parent of an element comes before it.
  \<open>Root\<close> marks a child of the document node, \<open>NoParent\<close> an element that
  \<^verbatim>\<open>remove()\<close> has taken out of its tree.  The record keeps what the program reads and
  writes: tag name (lower case), the \<^verbatim>\<open>id\<close> and \<^verbatim>\<open>role\<close> attributes (empty when
  absent), the text of the \<^verbatim>\<open>class\<close> attribute as it stands in the markup
  (\<open>className\<close>, empty when absent) and its tokens (\<^verbatim>\<open>classList\<close>),
  \<^verbatim>\<open>innerHTML\<close>, and the two entries of \<^verbatim>\<open>dataset\<close> that hold the undo snapshot.
  Inline styles are not part of it.

  The store lists the elements that the program's selectors reach; the markup inside an
  element is its \<^verbatim>\<open>innerHTML\<close> string.  An assignment to \<^verbatim>\<open>innerHTML\<close> or
  \<^verbatim>\<open>textContent\<close> replaces that string and nothing else: the pages modelled are those
  in which an element that the program assigns to (a paragraph of a batch, a marked
  element, the slider's label) holds text and inline markup only, so that no element of
  the store lies inside it.  The markup string of an element that has children in the
  store is the one of the page as loaded; it is not rewritten when a child changes.
\<close>

datatype parent_ref = Root | NoParent | Child nat

record element =
  tagName :: string
  el_id :: string
  role :: string
  className :: string
  classList :: "string list"
  parent :: parent_ref
  innerHTML :: string
  originalHTML :: "string option"
  originalText :: "string option"

type_synonym dom = "element list"

text \<open>The element and its ancestors, nearest first.\<close>

function ancestors_or_self :: "dom \<Rightarrow> nat \<Rightarrow> nat list" where
  "ancestors_or_self d i =
     (if i < length d
      then i # (case parent (d ! i) of
                  Child j \<Rightarrow> (if j < i then ancestors_or_self d j else [])
                | Root \<Rightarrow> []
                | NoParent \<Rightarrow> [])
      else [])"
  by pat_completeness auto
termination
  by (relation "measure snd") auto

declare ancestors_or_self.simps [simp del]

text \<open>An element is in the document when its chain of parents reaches the document node.\<close>

function isConnected :: "dom \<Rightarrow> nat \<Rightarrow> bool" where
  "isConnected d i =
     (if i < length d
      then (case parent (d ! i) of
              Root \<Rightarrow> True
            | NoParent \<Rightarrow> False
            | Child j \<Rightarrow> (if j < i then isConnected d j else False))
      else False)"
  by pat_completeness auto
termination
  by (relation "measure snd") auto

declare isConnected.simps [simp del]

subsection \<open>Selectors\<close>

text \<open>
  The simple selectors the program uses: a tag, \<^verbatim>\<open>.class\<close>, \<^verbatim>\<open>#id\<close>,
  \<^verbatim>\<open>[role="r"]\<close>, \<^verbatim>\<open>[id^="p"]\<close> and \<^verbatim>\<open>[class^="p"]\<close>.  A selector list
  (\<^verbatim>\<open>'nav, footer, .ad'\<close>) is a list of them.  A class selector looks for a token,
  an attribute selector reads the text of the attribute.
\<close>

datatype selector =
  Tag string | Class string | Id string | RoleIs string | IdPrefix string | ClassPrefix string

fun matches :: "element \<Rightarrow> selector \<Rightarrow> bool" where
  "matches e (Tag t) = (tagName e = t)"
| "matches e (Class c) = (c \<in> set (classList e))"
| "matches e (Id x) = (el_id e = x)"
| "matches e (RoleIs r) = (role e = r)"
| "matches e (IdPrefix p) = startsWith (el_id e) p"
| "matches e (ClassPrefix p) = startsWith (className e) p"

definition matches_any :: "element \<Rightarrow> selector list \<Rightarrow> bool" where
  "matches_any e sels = list_ex (matches e) sels"

text \<open>\<^verbatim>\<open>element.closest(sels)\<close>: the nearest of the element and its ancestors that matches.\<close>

definition closest :: "dom \<Rightarrow> nat \<Rightarrow> selector list \<Rightarrow> nat option" where
  "closest d i sels = find (\<lambda>k. matches_any (d ! k) sels) (ancestors_or_self d i)"

text \<open>\<^verbatim>\<open>document.querySelectorAll(sels)\<close> and \<^verbatim>\<open>document.querySelector(sels)\<close>.\<close>

definition querySelectorAll :: "dom \<Rightarrow> selector list \<Rightarrow> nat list" where
  "querySelectorAll d sels =
     filter (\<lambda>i. isConnected d i \<and> matches_any (d ! i) sels) [0..<length d]"

definition querySelector :: "dom \<Rightarrow> selector list \<Rightarrow> nat option" where
  "querySelector d sels =
     find (\<lambda>i. isConnected d i \<and> matches_any (d ! i) sels) [0..<length d]"

text \<open>\<^verbatim>\<open>c.querySelectorAll(sels)\<close>: the matching descendants of element \<open>c\<close>.\<close>

definition descendants :: "dom \<Rightarrow> nat \<Rightarrow> selector list \<Rightarrow> nat list" where
  "descendants d c sels =
     filter (\<lambda>i. c \<in> set (tl (ancestors_or_self d i)) \<and> matches_any (d ! i) sels)
       [0..<length d]"

definition getElementById :: "dom \<Rightarrow> string \<Rightarrow> nat option" where
  "getElementById d x = querySelector d [Id x]"

text \<open>\<^verbatim>\<open>document.body\<close>; \<open>None\<close> is \<^verbatim>\<open>null\<close>.\<close>

definition body :: "dom \<Rightarrow> nat option" where
  "body d = querySelector d [Tag ''body'']"

text \<open>
  \<^verbatim>\<open>classList.add\<close> and \<^verbatim>\<open>classList.remove\<close> of one token: the new tokens, and
  the element with them.  Either call rewrites the \<^verbatim>\<open>class\<close> attribute as the tokens
  joined by single spaces.
\<close>

definition classList_add :: "string \<Rightarrow> string list \<Rightarrow> string list" where
  "classList_add t ts = (if t \<in> set ts then ts else ts @ [t])"

definition classList_remove :: "string \<Rightarrow> string list \<Rightarrow> string list" where
  "classList_remove t ts = removeAll t ts"

fun join_tokens :: "string list \<Rightarrow> string" where
  "join_tokens [] = []"
| "join_tokens [t] = t"
| "join_tokens (t # u # ts) = t @ '' '' @ join_tokens (u # ts)"

definition add_class :: "string \<Rightarrow> element \<Rightarrow> element" where
  "add_class t e =
     e\<lparr>classList := classList_add t (classList e),
       className := join_tokens (classList_add t (classList e))\<rparr>"

definition remove_class :: "string \<Rightarrow> element \<Rightarrow> element" where
  "remove_class t e =
     e\<lparr>classList := classList_remove t (classList e),
       className := join_tokens (classList_remove t (classList e))\<rparr>"

text \<open>
  \<^verbatim>\<open>escapeHtml(text)\<close> assigns the text to a fresh \<^verbatim>\<open>div\<close> and reads its
  \<^verbatim>\<open>innerHTML\<close>: the serialisation of one text node.  Assigning \<^verbatim>\<open>textContent\<close> leaves
  an element with that same markup.
\<close>

definition escapeHtmlChar :: "char \<Rightarrow> string" where
  "escapeHtmlChar c =
     (if c = CHR ''&'' then ''&amp;''
      else if c = CHR 0xA0 then ''&nbsp;''
      else if c = CHR ''<'' then ''&lt;''
      else if c = CHR ''>'' then ''&gt;''
      else [c])"

definition escapeHtml :: "string \<Rightarrow> string" where
  "escapeHtml text = concat (map escapeHtmlChar text)"

text \<open>
  The text content of an element is what the browser reads from its markup.  That
  reading is the browser's; the operations take it as their first argument \<open>textOf\<close>.
\<close>

definition textContent :: "(string \<Rightarrow> string) \<Rightarrow> element \<Rightarrow> string" where
  "textContent textOf e = textOf (innerHTML e)"

text \<open>
  An assignment to \<^verbatim>\<open>innerHTML\<close> hands the string to the browser, which parses it as
  the content of the element and, when \<^verbatim>\<open>innerHTML\<close> is read again, writes the parsed
  content out; what is read back need not be the string assigned (the parser drops a line
  feed that follows \<^verbatim>\<open><textarea>\<close> or \<^verbatim>\<open><pre>\<close>, for one).  That too is the
  browser's: \<open>reparse browser tag s\<close> is the markup read back from an element with
  tag name \<open>tag\<close> after \<open>s\<close> has been assigned to it, and \<open>text_of browser\<close> is
  the reading of text from markup.
\<close>

record browser =
  text_of :: "string \<Rightarrow> string"
  reparse :: "string \<Rightarrow> string \<Rightarrow> string"

definition set_innerHTML :: "browser \<Rightarrow> string \<Rightarrow> element \<Rightarrow> element" where
  "set_innerHTML browser s e = e\<lparr>innerHTML := reparse browser (tagName e) s\<rparr>"

datatype js_error = TypeError

section \<open>Chunker\<close>

record chunk =
  chunk_element :: nat
  chunk_text :: string
  chunk_type :: string

definition content_selectors :: "selector list" where
  "content_selectors =
     [Tag ''article'', Tag ''main'', RoleIs ''main'', Class ''content'', Id ''content'',
      Class ''post-content'', Class ''article-content'', RoleIs ''article'']"

text \<open>The loop over the selectors: the first selector with a match gives the container.\<close>

fun first_match :: "dom \<Rightarrow> selector list \<Rightarrow> nat option" where
  "first_match d [] = None"
| "first_match d (sel # sels) =
     (case querySelector d [sel] of Some c \<Rightarrow> Some c | None \<Rightarrow> first_match d sels)"

definition chunk_candidates :: "selector list" where
  "chunk_candidates =
     [Tag ''p'', Tag ''h1'', Tag ''h2'', Tag ''h3'', Tag ''h4'', Tag ''h5'', Tag ''h6'',
      Tag ''li'', Tag ''blockquote'', Tag ''div'']"

definition unwanted_selectors :: "selector list" where
  "unwanted_selectors =
     [Tag ''nav'', Tag ''footer'', Class ''ad'', Class ''advertisement'', Tag ''script'',
      Tag ''style'']"

definition article_selectors :: "selector list" where
  "article_selectors = [Tag ''article'', Tag ''main'', RoleIs ''main'', RoleIs ''article'']"

definition cogniread_selectors :: "selector list" where
  "cogniread_selectors = [IdPrefix ''cogniread'', ClassPrefix ''cogniread'']"

definition block_selectors :: "selector list" where
  "block_selectors =
     [Tag ''p'', Tag ''h1'', Tag ''h2'', Tag ''h3'', Tag ''h4'', Tag ''h5'', Tag ''h6'',
      Tag ''div'', Tag ''article'', Tag ''section'']"

text \<open>
  The body of the \<^verbatim>\<open>forEach\<close>: \<open>None\<close> where the callback returns without pushing a
  chunk.  The test \<^verbatim>\<open>closest(unwanted) || (inHeader && !isArticleHeader)\<close> is written as
  two tests in a row.
\<close>

definition chunk_of :: "(string \<Rightarrow> string) \<Rightarrow> dom \<Rightarrow> nat \<Rightarrow> chunk option" where
  "chunk_of textOf d i =
     (let inHeader = (closest d i [Tag ''header''] \<noteq> None);
          inArticle = (closest d i article_selectors \<noteq> None);
          isArticleHeader = (inHeader \<and> inArticle)
      in if closest d i unwanted_selectors \<noteq> None then None
         else if inHeader \<and> \<not> isArticleHeader then None
         else if closest d i cogniread_selectors \<noteq> None then None
         else (let text = trim (textContent textOf (d ! i));
                   minLength = (if tagName (d ! i) = ''div'' then 50 else 10 :: nat)
               in if length text < minLength then None
                  else if tagName (d ! i) = ''div''
                          \<and> 2 < length (descendants d i block_selectors) then None
                  else Some \<lparr>chunk_element = i, chunk_text = text,
                             chunk_type = tagName (d ! i)\<rparr>))"

text \<open>The container: the first selector with a match, else \<^verbatim>\<open>document.body\<close>.\<close>

definition chunk_container :: "dom \<Rightarrow> nat option" where
  "chunk_container d =
     (case first_match d content_selectors of Some c \<Rightarrow> Some c | None \<Rightarrow> body d)"

text \<open>
  \<^verbatim>\<open>chunkContent()\<close>.  With no container and no \<^verbatim>\<open>document.body\<close> the call
  \<^verbatim>\<open>container.querySelectorAll\<close> throws.
\<close>

definition chunkContent :: "(string \<Rightarrow> string) \<Rightarrow> dom \<Rightarrow> js_error + chunk list" where
  "chunkContent textOf d =
     (case chunk_container d of
        None \<Rightarrow> Inl TypeError
      | Some c \<Rightarrow>
          Inr (List.map_filter (chunk_of textOf d) (descendants d c chunk_candidates)))"

text \<open>
  The tests of the \<^verbatim>\<open>forEach\<close> body other than the header test: no unwanted
  ancestor, not part of the extension's own interface, enough text, and for a
  \<^verbatim>\<open>div\<close> at most two block descendants.
\<close>

definition passes_other_tests :: "(string \<Rightarrow> string) \<Rightarrow> dom \<Rightarrow> nat \<Rightarrow> bool" where
  "passes_other_tests textOf d i =
     (closest d i unwanted_selectors = None
      \<and> closest d i cogniread_selectors = None
      \<and> (if tagName (d ! i) = ''div'' then 50 else 10) \<le> length (trim (textContent textOf (d ! i)))
      \<and> (if tagName (d ! i) = ''div'' then length (descendants d i block_selectors) \<le> 2
          else True))"

section \<open>Text transform pipeline\<close>

text \<open>
  The state the content script works on: the page, the two feature flags of
  \<^verbatim>\<open>this.state\<close> that the simplify and expand toggles read and write, and the numbers of
  the paragraphs for which a failure went to \<^verbatim>\<open>console.error\<close>, oldest first.  The
  states modelled are those with focus mode off; preferences and the panel's own widgets
  are outside the model, as are the overlay that a batch shows while it runs and removes
  when it ends, and the scroll to the first transformed paragraph.
\<close>

record world =
  page :: dom
  simplificationLevel :: nat
  expansionMode :: bool
  errors :: "nat list"

text \<open>
  A call of the external transform service either returns the new text or throws.  The
  service is given the number of the call within its batch and the paragraph's text.
\<close>

datatype ai_result = Throws | Returns string

type_synonym transform = "nat \<Rightarrow> string \<Rightarrow> ai_result"

datatype outcome = Returned | Threw js_error

definition update_element :: "nat \<Rightarrow> (element \<Rightarrow> element) \<Rightarrow> dom \<Rightarrow> dom" where
  "update_element i f d = d[i := f (d ! i)]"

text \<open>\<^verbatim>\<open>nodes.forEach(el => ...)\<close> over elements found by a query.\<close>

definition for_each :: "nat list \<Rightarrow> (element \<Rightarrow> element) \<Rightarrow> dom \<Rightarrow> dom" where
  "for_each nodes f d = fold (\<lambda>i. update_element i f) nodes d"

subsection \<open>Locating the paragraphs\<close>

definition main_selectors :: "selector list" where
  "main_selectors =
     [Tag ''article'', Tag ''main'', RoleIs ''main'', Class ''content'', Id ''content'']"

definition findMainContainer :: "dom \<Rightarrow> nat option" where
  "findMainContainer d =
     (case first_match d main_selectors of Some c \<Rightarrow> Some c | None \<Rightarrow> body d)"

definition excluded_selectors :: "selector list" where
  "excluded_selectors =
     [Tag ''nav'', Tag ''header'', Tag ''footer'', Tag ''aside'', Class ''ad'',
      Class ''advertisement'']"

definition findSubstantialParagraphs :: "browser \<Rightarrow> dom \<Rightarrow> nat \<Rightarrow> nat list" where
  "findSubstantialParagraphs browser d container =
     filter (\<lambda>p. if closest d p excluded_selectors \<noteq> None then False
                 else 20 \<le> length (trim (textContent (text_of browser) (d ! p))))
       (descendants d container [Tag ''p''])"

subsection \<open>One paragraph\<close>

text \<open>The assignments of the \<^verbatim>\<open>try\<close> block after the service has returned.\<close>

definition store_and_replace ::
  "browser \<Rightarrow> string \<Rightarrow> string \<Rightarrow> string \<Rightarrow> element \<Rightarrow> element" where
  "store_and_replace browser marker originalText0 newText e =
     add_class marker
       (set_innerHTML browser (escapeHtml newText)
          (e\<lparr>originalHTML := Some (innerHTML e), originalText := Some originalText0\<rparr>))"

text \<open>The \<^verbatim>\<open>catch\<close> block of the simplification and expansion loops.\<close>

definition keep_but_mark :: "string \<Rightarrow> string \<Rightarrow> element \<Rightarrow> element" where
  "keep_but_mark marker originalText0 e =
     add_class marker (e\<lparr>originalText := Some originalText0\<rparr>)"

text \<open>
  One round of the loop in \<^verbatim>\<open>applyTextSimplification\<close> and
  \<^verbatim>\<open>applyTextExpansion\<close>; \<open>n\<close> is \<^verbatim>\<open>processedCount\<close>.
\<close>

definition marking_step ::
  "browser \<Rightarrow> string \<Rightarrow> transform \<Rightarrow> nat \<Rightarrow> nat \<Rightarrow> world \<Rightarrow> world" where
  "marking_step browser marker service n p w =
     (let originalText0 = trim (textContent (text_of browser) (page w ! p))
      in case service n originalText0 of
           Returns newText \<Rightarrow>
             w\<lparr>page := update_element p (store_and_replace browser marker originalText0 newText) (page w)\<rparr>
         | Throws \<Rightarrow>
             w\<lparr>page := update_element p (keep_but_mark marker originalText0) (page w),
               errors := errors w @ [n]\<rparr>)"

text \<open>
  One round of the loop in \<^verbatim>\<open>applyToneAdjustment\<close>,
  \<^verbatim>\<open>applyActiveVoiceConversion\<close> and \<^verbatim>\<open>applySentenceRestructuring\<close>: the
  \<^verbatim>\<open>catch\<close> block only logs; \<open>n\<close> is \<^verbatim>\<open>i + 1\<close>.
\<close>

definition plain_step ::
  "browser \<Rightarrow> string \<Rightarrow> transform \<Rightarrow> nat \<Rightarrow> nat \<Rightarrow> world \<Rightarrow> world" where
  "plain_step browser marker service n p w =
     (let originalText0 = trim (textContent (text_of browser) (page w ! p))
      in case service n originalText0 of
           Returns newText \<Rightarrow>
             w\<lparr>page := update_element p (store_and_replace browser marker originalText0 newText) (page w)\<rparr>
         | Throws \<Rightarrow> w\<lparr>errors := errors w @ [n]\<rparr>)"

text \<open>The \<^verbatim>\<open>for\<close> loop over the paragraphs, one call at a time, in order.\<close>

fun batch_loop :: "(nat \<Rightarrow> nat \<Rightarrow> world \<Rightarrow> world) \<Rightarrow> nat \<Rightarrow> nat list \<Rightarrow> world \<Rightarrow> world" where
  "batch_loop step n [] w = w"
| "batch_loop step n (p # ps) w = batch_loop step (Suc n) ps (step n p w)"

subsection \<open>The batches\<close>

definition simplified_marker :: string where
  "simplified_marker = ''cogniread-simplified-text''"

definition expanded_marker :: string where
  "expanded_marker = ''cogniread-expanded-text''"

definition tone_marker :: string where
  "tone_marker = ''cogniread-tone-adjusted''"

definition active_voice_marker :: string where
  "active_voice_marker = ''cogniread-active-voice''"

definition restructured_marker :: string where
  "restructured_marker = ''cogniread-restructured''"

text \<open>
  \<^verbatim>\<open>applyTextSimplification\<close> and \<^verbatim>\<open>applyTextExpansion\<close> look the container up
  with the selector loop of \<^verbatim>\<open>findMainContainer\<close> and filter the paragraphs with the test
  of \<^verbatim>\<open>findSubstantialParagraphs\<close>, both written out in place; they return early when
  there is no paragraph, or no substantial one.
\<close>

definition marking_batch ::
  "browser \<Rightarrow> string \<Rightarrow> transform \<Rightarrow> world \<Rightarrow> outcome \<times> world" where
  "marking_batch browser marker service w =
     (case findMainContainer (page w) of
        None \<Rightarrow> (Threw TypeError, w)
      | Some container \<Rightarrow>
          (if descendants (page w) container [Tag ''p''] = [] then (Returned, w)
           else (let substantialParagraphs =
                       findSubstantialParagraphs browser (page w) container
                 in if substantialParagraphs = [] then (Returned, w)
                    else (Returned,
                          batch_loop (marking_step browser marker service) 1
                            substantialParagraphs w))))"

definition applyTextSimplification ::
  "browser \<Rightarrow> transform \<Rightarrow> world \<Rightarrow> outcome \<times> world" where
  "applyTextSimplification browser simplifyText w =
     marking_batch browser simplified_marker simplifyText w"

definition applyTextExpansion ::
  "browser \<Rightarrow> transform \<Rightarrow> world \<Rightarrow> outcome \<times> world" where
  "applyTextExpansion browser expandText w =
     marking_batch browser expanded_marker expandText w"

definition plain_batch ::
  "browser \<Rightarrow> string \<Rightarrow> transform \<Rightarrow> world \<Rightarrow> outcome \<times> world" where
  "plain_batch browser marker service w =
     (case findMainContainer (page w) of
        None \<Rightarrow> (Threw TypeError, w)
      | Some container \<Rightarrow>
          (let paragraphs = findSubstantialParagraphs browser (page w) container
           in if paragraphs = [] then (Returned, w)
              else (Returned, batch_loop (plain_step browser marker service) 1 paragraphs w)))"

definition applyActiveVoiceConversion ::
  "browser \<Rightarrow> transform \<Rightarrow> world \<Rightarrow> outcome \<times> world" where
  "applyActiveVoiceConversion browser convertToActiveVoice w =
     plain_batch browser active_voice_marker convertToActiveVoice w"

definition applySentenceRestructuring ::
  "browser \<Rightarrow> transform \<Rightarrow> world \<Rightarrow> outcome \<times> world" where
  "applySentenceRestructuring browser restructureSentences w =
     plain_batch browser restructured_marker restructureSentences w"

subsection \<open>Reversal\<close>

text \<open>\<^verbatim>\<open>if (el.dataset.x)\<close>: the entry is present and not the empty string.\<close>

fun truthy :: "string option \<Rightarrow> bool" where
  "truthy None = False"
| "truthy (Some s) = (s \<noteq> [])"

text \<open>
  \<^verbatim>\<open>hideAllLoadingModals()\<close>: every element of class \<^verbatim>\<open>cogniread-loading\<close> in the
  document is removed from it.
\<close>

definition loading_class :: string where
  "loading_class = ''cogniread-loading''"

definition remove_node :: "element \<Rightarrow> element" where
  "remove_node e = e\<lparr>parent := NoParent\<rparr>"

definition hideAllLoadingModals :: "dom \<Rightarrow> dom" where
  "hideAllLoadingModals d = for_each (querySelectorAll d [Class loading_class]) remove_node d"

text \<open>
  The callback of \<^verbatim>\<open>removeSimplification\<close> and \<^verbatim>\<open>removeExpansion\<close>: the markup
  snapshot if there is one, else the text snapshot.
\<close>

definition restore_markup_or_text :: "browser \<Rightarrow> string \<Rightarrow> element \<Rightarrow> element" where
  "restore_markup_or_text browser marker e0 =
     (let e = remove_class marker e0
      in if truthy (originalHTML e)
         then (set_innerHTML browser (the (originalHTML e)) e)
                \<lparr>originalHTML := None, originalText := None\<rparr>
         else if truthy (originalText e)
         then e\<lparr>innerHTML := escapeHtml (the (originalText e)), originalText := None\<rparr>
         else e)"

text \<open>
  The callback of \<^verbatim>\<open>removeToneAdjustment\<close>, \<^verbatim>\<open>removeActiveVoice\<close> and
  \<^verbatim>\<open>removeSentenceRestructuring\<close>: the markup snapshot or nothing.
\<close>

definition restore_markup :: "browser \<Rightarrow> string \<Rightarrow> element \<Rightarrow> element" where
  "restore_markup browser marker e0 =
     (let e = remove_class marker e0
      in if truthy (originalHTML e)
         then (set_innerHTML browser (the (originalHTML e)) e)
                \<lparr>originalHTML := None, originalText := None\<rparr>
         else e)"

definition removeSimplification :: "browser \<Rightarrow> world \<Rightarrow> world" where
  "removeSimplification browser w =
     (let d = hideAllLoadingModals (page w);
          simplified = querySelectorAll d [Class simplified_marker]
      in w\<lparr>page := for_each simplified (restore_markup_or_text browser simplified_marker) d\<rparr>)"

definition removeExpansion :: "browser \<Rightarrow> world \<Rightarrow> world" where
  "removeExpansion browser w =
     (let d = hideAllLoadingModals (page w);
          expanded = querySelectorAll d [Class expanded_marker]
      in w\<lparr>page := for_each expanded (restore_markup_or_text browser expanded_marker) d\<rparr>)"

definition removeToneAdjustment :: "browser \<Rightarrow> world \<Rightarrow> world" where
  "removeToneAdjustment browser w =
     (let adjusted = querySelectorAll (page w) [Class tone_marker]
      in w\<lparr>page := for_each adjusted (restore_markup browser tone_marker) (page w)\<rparr>)"

definition removeActiveVoice :: "browser \<Rightarrow> world \<Rightarrow> world" where
  "removeActiveVoice browser w =
     (let d = hideAllLoadingModals (page w);
          converted = querySelectorAll d [Class active_voice_marker]
      in w\<lparr>page := for_each converted (restore_markup browser active_voice_marker) d\<rparr>)"

definition removeSentenceRestructuring :: "browser \<Rightarrow> world \<Rightarrow> world" where
  "removeSentenceRestructuring browser w =
     (let d = hideAllLoadingModals (page w);
          restructured = querySelectorAll d [Class restructured_marker]
      in w\<lparr>page := for_each restructured (restore_markup browser restructured_marker) d\<rparr>)"

subsection \<open>The toggles\<close>

text \<open>
  \<^verbatim>\<open>applyToneAdjustment(tone)\<close>: the tone \<^verbatim>\<open>'off'\<close> reverses, any other tone runs
  the batch with the service for that tone.
\<close>

definition applyToneAdjustment ::
  "browser \<Rightarrow> (string \<Rightarrow> transform) \<Rightarrow> string \<Rightarrow> world \<Rightarrow> outcome \<times> world" where
  "applyToneAdjustment browser adjustTone tone w =
     (if tone = ''off'' then (Returned, removeToneAdjustment browser w)
      else plain_batch browser tone_marker (adjustTone tone) w)"

text \<open>
  \<^verbatim>\<open>levelNames[level]\<close>; \<open>None\<close> is \<^verbatim>\<open>undefined\<close>, for a level beyond the table.
\<close>

definition levelNames :: "string list" where
  "levelNames = ['''', ''ELI5'', ''ELI10'', ''ELI15'', ''College Level'']"

definition levelName :: "nat \<Rightarrow> string option" where
  "levelName level = (if level < length levelNames then Some (levelNames ! level) else None)"

text \<open>
  \<^verbatim>\<open>applySimplification(level)\<close>: reverse any simplification, then, unless the level is
  0, simplify to the level.
\<close>

definition applySimplification ::
  "browser \<Rightarrow> (string option \<Rightarrow> transform) \<Rightarrow> nat \<Rightarrow> world \<Rightarrow> outcome \<times> world" where
  "applySimplification browser simplifyText level w =
     (let w1 = removeSimplification browser w
      in if level = 0 then (Returned, w1)
         else applyTextSimplification browser (simplifyText (levelName level)) w1)"

text \<open>
  \<^verbatim>\<open>toggleExpansionMode(enabled)\<close>.  When a simplification level is set, enabling first
  reverses the simplification and resets the level, then resets the slider and its label,
  which it looks up by the ids \<^verbatim>\<open>simplification-slider\<close> and
  \<^verbatim>\<open>simplification-label\<close>: the assignment throws on \<^verbatim>\<open>null\<close> when the document has
  no such element.
\<close>

definition toggleExpansionMode ::
  "browser \<Rightarrow> transform \<Rightarrow> bool \<Rightarrow> world \<Rightarrow> outcome \<times> world" where
  "toggleExpansionMode browser expandText enabled w =
     (let w1 = w\<lparr>expansionMode := enabled\<rparr>
      in if enabled
         then (if 0 < simplificationLevel w1
               then (let w2 = (removeSimplification browser w1)\<lparr>simplificationLevel := 0\<rparr>
                     in case getElementById (page w2) ''simplification-slider'' of
                          None \<Rightarrow> (Threw TypeError, w2)
                        | Some slider \<Rightarrow>
                            (case getElementById (page w2) ''simplification-label'' of
                               None \<Rightarrow> (Threw TypeError, w2)
                             | Some label \<Rightarrow>
                                 applyTextExpansion browser expandText
                                   (w2\<lparr>page := update_element label
                                      (\<lambda>e. e\<lparr>innerHTML := escapeHtml ''Simplification: Off''\<rparr>)
                                      (page w2)\<rparr>)))
               else applyTextExpansion browser expandText w1)
         else (Returned, removeExpansion browser w1))"

text \<open>The \<^verbatim>\<open>input\<close> handler of the simplification slider.\<close>

definition slider_input ::
  "browser \<Rightarrow> (string option \<Rightarrow> transform) \<Rightarrow> nat \<Rightarrow> world \<Rightarrow> outcome \<times> world" where
  "slider_input browser simplifyText level w =
     applySimplification browser simplifyText level (w\<lparr>simplificationLevel := level\<rparr>)"

subsection \<open>The five transforms side by side\<close>

text \<open>
  The batch and the reversal of each transform, and its marker class.  The tone batch is
  run with a tone other than \<^verbatim>\<open>'off'\<close>, which the service has been given.
\<close>

datatype transform_kind =
  Simplification | Expansion | ToneAdjustment | ActiveVoice | Restructuring

fun marker_of :: "transform_kind \<Rightarrow> string" where
  "marker_of Simplification = simplified_marker"
| "marker_of Expansion = expanded_marker"
| "marker_of ToneAdjustment = tone_marker"
| "marker_of ActiveVoice = active_voice_marker"
| "marker_of Restructuring = restructured_marker"

fun apply_batch ::
  "transform_kind \<Rightarrow> browser \<Rightarrow> transform \<Rightarrow> world \<Rightarrow> outcome \<times> world" where
  "apply_batch Simplification browser service w = applyTextSimplification browser service w"
| "apply_batch Expansion browser service w = applyTextExpansion browser service w"
| "apply_batch ToneAdjustment browser service w =
     applyToneAdjustment browser (\<lambda>tone. service) ''formal'' w"
| "apply_batch ActiveVoice browser service w = applyActiveVoiceConversion browser service w"
| "apply_batch Restructuring browser service w = applySentenceRestructuring browser service w"

fun remove_batch :: "browser \<Rightarrow> transform_kind \<Rightarrow> world \<Rightarrow> world" where
  "remove_batch browser Simplification w = removeSimplification browser w"
| "remove_batch browser Expansion w = removeExpansion browser w"
| "remove_batch browser ToneAdjustment w = removeToneAdjustment browser w"
| "remove_batch browser ActiveVoice w = removeActiveVoice browser w"
| "remove_batch browser Restructuring w = removeSentenceRestructuring browser w"

text \<open>The batches whose \<^verbatim>\<open>catch\<close> block marks the paragraph.\<close>

fun marks_on_failure :: "transform_kind \<Rightarrow> bool" where
  "marks_on_failure Simplification = True"
| "marks_on_failure Expansion = True"
| "marks_on_failure ToneAdjustment = False"
| "marks_on_failure ActiveVoice = False"
| "marks_on_failure Restructuring = False"

text \<open>The reversals that start with \<^verbatim>\<open>hideAllLoadingModals()\<close>.\<close>

fun hides_overlays :: "transform_kind \<Rightarrow> bool" where
  "hides_overlays ToneAdjustment = False"
| "hides_overlays kind = True"

text \<open>
  What one round of a batch does to its paragraph, by the outcome of the call, and what
  the reversal of the transform does to an element it finds marked.
\<close>

definition round_element ::
  "transform_kind \<Rightarrow> browser \<Rightarrow> transform \<Rightarrow> nat \<Rightarrow> element \<Rightarrow> element" where
  "round_element kind browser service n e =
     (let originalText0 = trim (textContent (text_of browser) e)
      in case service n originalText0 of
           Returns newText \<Rightarrow> store_and_replace browser (marker_of kind) originalText0 newText e
         | Throws \<Rightarrow>
             (if marks_on_failure kind then keep_but_mark (marker_of kind) originalText0 e
              else e))"

definition restore_element :: "browser \<Rightarrow> transform_kind \<Rightarrow> element \<Rightarrow> element" where
  "restore_element browser kind e =
     (if marks_on_failure kind then restore_markup_or_text browser (marker_of kind) e
      else restore_markup browser (marker_of kind) e)"

text \<open>The paragraphs a batch works on, in the order of the loop.\<close>

definition batch_paragraphs :: "browser \<Rightarrow> world \<Rightarrow> nat list" where
  "batch_paragraphs browser w =
     (case findMainContainer (page w) of
        None \<Rightarrow> []
      | Some container \<Rightarrow> findSubstantialParagraphs browser (page w) container)"

text \<open>The round of the loop of each batch.\<close>

definition kind_step ::
  "transform_kind \<Rightarrow> browser \<Rightarrow> transform \<Rightarrow> nat \<Rightarrow> nat \<Rightarrow> world \<Rightarrow> world" where
  "kind_step kind browser service =
     (if marks_on_failure kind then marking_step browser (marker_of kind) service
      else plain_step browser (marker_of kind) service)"

section \<open>Example inputs\<close>

text \<open>
  A table with a long idiom and two shorter entries that occur inside it, and a sentence
  that contains the long idiom in mixed case.
\<close>

definition nail_table :: "(string \<times> string) list" where
  "nail_table =
     [(''the nail'', ''a metal pin''),
      (''hit the nail on the head'', ''do or say something exactly right''),
      (''On The Head'', ''on top'')]"

definition nail_sentence :: string where
  "nail_sentence = ''You HIT the nail on the head.''"

definition ice_sentence :: string where
  "ice_sentence = ''Let's break the ice before the meeting.''"

text \<open>
  A reading of markup that drops the tags, for the example pages, whose markup has no
  character references.
\<close>

fun drop_tags :: "bool \<Rightarrow> string \<Rightarrow> string" where
  "drop_tags inTag [] = []"
| "drop_tags inTag (c # cs) =
     (if inTag then (if c = CHR ''>'' then drop_tags False cs else drop_tags True cs)
      else (if c = CHR ''<'' then drop_tags True cs else c # drop_tags False cs))"

definition plain_text :: "string \<Rightarrow> string" where
  "plain_text markup = drop_tags False markup"

text \<open>
  A browser for the example pages: it reads text by dropping the tags, and reads their
  markup back as it was assigned.
\<close>

definition plain_browser :: browser where
  "plain_browser = \<lparr>text_of = plain_text, reparse = (\<lambda>tag s. s)\<rparr>"

definition el :: "string \<Rightarrow> parent_ref \<Rightarrow> string list \<Rightarrow> string \<Rightarrow> element" where
  "el t p cs h =
     \<lparr>tagName = t, el_id = [], role = [], className = join_tokens cs, classList = cs,
      parent = p, innerHTML = h,
      originalHTML = None, originalText = None\<rparr>"

text \<open>
  A page whose article holds a navigation bar with a paragraph, a header with the title,
  and a paragraph:
  \<^verbatim>\<open><html><body><article><nav><p>..</p></nav><header><h1>..</h1></header><p>..</p></article></body></html>\<close>.
  The elements are numbered from 0 in this order.
\<close>

definition nav_p :: string where
  "nav_p = ''Home, news and the archive of all years''"

definition title_h1 :: string where
  "title_h1 = ''<b>Reading</b> with ease''"

definition first_p :: string where
  "first_p = ''Short lines are <i>easier</i> to read.''"

definition article_markup :: string where
  "article_markup =
     ''<nav><p>'' @ nav_p @ ''</p></nav><header><h1>'' @ title_h1 @ ''</h1></header><p>''
       @ first_p @ ''</p>''"

definition header_page :: dom where
  "header_page =
     [el ''html'' Root [] (''<body><article>'' @ article_markup @ ''</article></body>''),
      el ''body'' (Child 0) [] (''<article>'' @ article_markup @ ''</article>''),
      el ''article'' (Child 1) [] article_markup,
      el ''nav'' (Child 2) [] (''<p>'' @ nav_p @ ''</p>''),
      el ''p'' (Child 3) [] nav_p,
      el ''header'' (Child 2) [] (''<h1>'' @ title_h1 @ ''</h1>''),
      el ''h1'' (Child 5) [] title_h1,
      el ''p'' (Child 2) [] first_p]"

definition header_page_chunks :: "chunk list" where
  "header_page_chunks =
     [\<lparr>chunk_element = 6, chunk_text = ''Reading with ease'', chunk_type = ''h1''\<rparr>,
      \<lparr>chunk_element = 7, chunk_text = ''Short lines are easier to read.'',
        chunk_type = ''p''\<rparr>]"

text \<open>
  An article of two paragraphs, the first with inline markup:
  \<^verbatim>\<open><html><body><article><p>..</p><p>..</p></article></body></html>\<close>.
\<close>

definition cats_p :: string where
  "cats_p = ''<b>Cats</b> sleep for most of the day.''"

definition dogs_p :: string where
  "dogs_p = ''Dogs like to walk in the morning.''"

definition two_paragraphs :: dom where
  "two_paragraphs =
     [el ''html'' Root []
        (''<body><article><p>'' @ cats_p @ ''</p><p>'' @ dogs_p @ ''</p></article></body>''),
      el ''body'' (Child 0) []
        (''<article><p>'' @ cats_p @ ''</p><p>'' @ dogs_p @ ''</p></article>''),
      el ''article'' (Child 1) [] (''<p>'' @ cats_p @ ''</p><p>'' @ dogs_p @ ''</p>''),
      el ''p'' (Child 2) [] cats_p,
      el ''p'' (Child 2) [] dogs_p]"

definition clean_world :: world where
  "clean_world =
     \<lparr>page = two_paragraphs, simplificationLevel = 0, expansionMode = False, errors = []\<rparr>"

text \<open>
  The same page while another batch is running: its loading overlay is the last child of
  \<^verbatim>\<open>body\<close>.  No transform is active.
\<close>

definition overlay_world :: world where
  "overlay_world =
     clean_world\<lparr>page := two_paragraphs
        @ [el ''div'' (Child 1) [''cogniread-loading'']
             ''<div class=\"cogniread-loading-spinner\"></div><div>Adjusting tone to formal...</div>'']\<rparr>"


text \<open>Services that always return.\<close>

definition shorten :: transform where
  "shorten n text = Returns ''A short text of a few plain words.''"

definition lengthen :: transform where
  "lengthen n text = Returns ''A much longer text, with more words and details than before.''"

text \<open>The page after expansion has been switched on.\<close>

definition expanded_world :: world where
  "expanded_world = snd (toggleExpansionMode plain_browser lengthen True clean_world)"

text \<open>
  A browser that, as the parser of markup does, ignores a line feed that comes first in a
  \<^verbatim>\<open>textarea\<close>, and a page whose only paragraph holds such a line feed.
\<close>

fun ignore_first_newline :: "string \<Rightarrow> string" where
  "ignore_first_newline [] = []"
| "ignore_first_newline (c # cs) =
     (if startsWith (c # cs) (''<textarea>'' @ [CHR 0x0A])
      then ''<textarea>'' @ ignore_first_newline (drop 10 cs)
      else c # ignore_first_newline cs)"

definition newline_browser :: browser where
  "newline_browser = \<lparr>text_of = plain_text, reparse = (\<lambda>tag s. ignore_first_newline s)\<rparr>"

definition form_p :: string where
  "form_p = ''Write your answer in this box: <textarea>'' @ [CHR 0x0A] @ ''abc</textarea>''"

definition form_world :: world where
  "form_world =
     \<lparr>page =
        [el ''html'' Root [] (''<body><article><p>'' @ form_p @ ''</p></article></body>''),
         el ''body'' (Child 0) [] (''<article><p>'' @ form_p @ ''</p></article>''),
         el ''article'' (Child 1) [] (''<p>'' @ form_p @ ''</p>''),
         el ''p'' (Child 2) [] form_p],
      simplificationLevel = 0, expansionMode = False, errors = []\<rparr>"
section \<open>Properties of the idiom scanner\<close>

lemma startsWith_prefix: "startsWith s sub \<longleftrightarrow> prefix sub s"
  by (induction s sub rule: startsWith.induct) auto

lemma str_includes_sublist: "str_includes s sub \<longleftrightarrow> sublist sub s"
proof (induction s)
  case Nil
  then show ?case by (simp add: startsWith_prefix)
next
  case (Cons x xs)
  then show ?case by (simp add: startsWith_prefix sublist_Cons_right)
qed

text \<open>\<^verbatim>\<open>includes\<close> is substring search.\<close>

lemma str_includes_iff: "str_includes s sub \<longleftrightarrow> (\<exists>pre post. s = pre @ sub @ post)"
  by (simp add: str_includes_sublist sublist_def)

lemma length_toLowerCase: "length (toLowerCase s) = length s"
  by (simp add: toLowerCase_def)

text \<open>The loop returns the first entry whose lower-cased key occurs in the sentence.\<close>

lemma scan_idioms_find:
  "scan_idioms ls es =
     (case find (\<lambda>e. str_includes ls (toLowerCase (fst e))) es of
        None \<Rightarrow> no_idiom | Some e \<Rightarrow> found_idiom (fst e) (snd e))"
  by (induction ls es rule: scan_idioms.induct) auto

lemma find_sort_key_least:
  fixes f :: "'a \<Rightarrow> int"
  assumes "find P (sort_key f xs) = Some x" and "y \<in> set xs" and "P y"
  shows "f x \<le> f y"
proof -
  define ys where "ys = sort_key f xs"
  from assms(1) obtain i where i: "i < length ys" "x = ys ! i" "\<forall>j<i. \<not> P (ys ! j)"
    unfolding ys_def find_Some_iff by blast
  from assms(2) have "y \<in> set ys" by (simp add: ys_def)
  then obtain j where j: "j < length ys" "ys ! j = y"
    unfolding in_set_conv_nth by blast
  have "\<not> j < i" using i(3) j(2) assms(3) by auto
  then have ij: "i \<le> j" by simp
  have "sorted (map f ys)" unfolding ys_def by (rule sorted_sort_key)
  then have "map f ys ! i \<le> map f ys ! j"
    using ij j(1) by (simp add: sorted_iff_nth_mono)
  then show ?thesis using i(1,2) j by simp
qed

lemma find_exists: "y \<in> set xs \<Longrightarrow> P y \<Longrightarrow> \<exists>x. find P xs = Some x"
  by (cases "find P xs") (auto simp: find_None_iff)

text \<open>
  The scan order: the entries of the table, longest key first, entries of equal key length
  in table order.
\<close>

lemma sortedIdioms_order:
  "sorted (map (\<lambda>e. - int (length (fst e))) (sortedIdioms d))
   \<and> mset (sortedIdioms d) = mset d
   \<and> filter (\<lambda>e. length (fst e) = n) (sortedIdioms d) = filter (\<lambda>e. length (fst e) = n) d"
proof -
  have "filter (\<lambda>e. - int (length (fst e)) = - int n) (sortedIdioms d)
          = filter (\<lambda>e. - int (length (fst e)) = - int n) d"
    unfolding sortedIdioms_def by (rule sort_key_stable)
  then show ?thesis by (simp add: sortedIdioms_def)
qed

lemma fallbackIdiomDetection_first_longest:
  assumes "(L, vL) \<in> set dict"
      and "str_includes (toLowerCase sentence) (toLowerCase L)"
  shows "\<exists>k v. fallbackIdiomDetection (Some dict) sentence = found_idiom k v
           \<and> find (\<lambda>e. str_includes (toLowerCase sentence) (toLowerCase (fst e)))
                 (sortedIdioms dict) = Some (k, v)
           \<and> (k, v) \<in> set dict
           \<and> str_includes (toLowerCase sentence) (toLowerCase k)
           \<and> (\<forall>e \<in> set dict. str_includes (toLowerCase sentence) (toLowerCase (fst e))
                  \<longrightarrow> length (fst e) \<le> length k)"
proof -
  define P where
    "P = (\<lambda>e::string \<times> string. str_includes (toLowerCase sentence) (toLowerCase (fst e)))"
  define f where "f = (\<lambda>e::string \<times> string. - int (length (fst e)))"
  have sorted_eq: "sortedIdioms dict = sort_key f dict"
    by (simp add: sortedIdioms_def f_def)
  have PL: "P (L, vL)" using assms(2) by (simp add: P_def)
  have "(L, vL) \<in> set (sort_key f dict)" using assms(1) by simp
  then obtain x where x: "find P (sort_key f dict) = Some x"
    using PL find_exists [of "(L, vL)" "sort_key f dict" P] by blast
  obtain k v where kv: "x = (k, v)" by (cases x)
  have px: "P (k, v)" using x kv by (auto simp: find_Some_iff)
  obtain i where "i < length (sort_key f dict)" "x = sort_key f dict ! i"
    using x unfolding find_Some_iff by blast
  then have "x \<in> set (sort_key f dict)" by (simp only: nth_mem)
  then have xin: "(k, v) \<in> set dict" using kv by simp
  have least: "length (fst e) \<le> length k" if "e \<in> set dict" "P e" for e
    using find_sort_key_least [OF x that] kv by (simp add: f_def)
  have "dict \<noteq> []" using assms(1) by auto
  then have res: "fallbackIdiomDetection (Some dict) sentence = found_idiom k v"
    using x kv by (simp add: fallbackIdiomDetection_def scan_idioms_find sorted_eq P_def)
  have fnd: "find (\<lambda>e. str_includes (toLowerCase sentence) (toLowerCase (fst e)))
                 (sortedIdioms dict) = Some (k, v)"
    using x kv by (simp add: sorted_eq P_def)
  have mx: "\<forall>e \<in> set dict. str_includes (toLowerCase sentence) (toLowerCase (fst e))
                  \<longrightarrow> length (fst e) \<le> length k"
    using least by (simp add: P_def)
  from res fnd xin px mx show ?thesis unfolding P_def by auto
qed

lemma fallbackIdiomDetection_no_match:
  assumes "list_all (\<lambda>e. \<not> str_includes (toLowerCase sentence) (toLowerCase (fst e))) dict"
  shows "fallbackIdiomDetection (Some dict) sentence = no_idiom"
proof -
  have "find (\<lambda>e. str_includes (toLowerCase sentence) (toLowerCase (fst e)))
          (sortedIdioms dict) = None"
    using assms by (auto simp: find_None_iff sortedIdioms_def list_all_iff)
  then show ?thesis
    by (simp add: fallbackIdiomDetection_def scan_idioms_find)
qed

text \<open>No key of the idiom table occurs in the sentence about breaking the ice.\<close>

lemma ice_sentence_no_key:
  "list_all (\<lambda>e. \<not> str_includes (toLowerCase ice_sentence) (toLowerCase (fst e)))
     IDIOMS_DICTIONARY"
  by code_simp

lemma ice_sentence_has_phrase:
  "str_includes (toLowerCase ice_sentence) (toLowerCase ''break the ice'')"
  by code_simp

text \<open>
  C6.  The claim as stated fails: scanning the sentence
  \<^verbatim>\<open>"Let's break the ice before the meeting."\<close> against the static idiom table does not
  return \<^verbatim>\<open>hasIdiom = true\<close> with the idiom \<^verbatim>\<open>"break the ice"\<close>.
\<close>

theorem C6_break_the_ice_counterexample:
  "\<not> (hasIdiom (fallbackIdiomDetection (Some IDIOMS_DICTIONARY) ice_sentence)
       \<and> idiom (fallbackIdiomDetection (Some IDIOMS_DICTIONARY) ice_sentence)
           = Some ''break the ice'')"
  using fallbackIdiomDetection_no_match [OF ice_sentence_no_key]
  by (simp add: no_idiom_def)

text \<open>
  C6, amended.  Scanning the sentence \<^verbatim>\<open>"Let's break the ice before the meeting."\<close>
  against the static idiom table returns \<^verbatim>\<open>{hasIdiom: false}\<close>, because the table has
  no entry \<^verbatim>\<open>"break the ice"\<close>; against that table with an entry
  \<^verbatim>\<open>"break the ice"\<close> added, the scan returns \<^verbatim>\<open>hasIdiom = true\<close> and that idiom.
\<close>

theorem C6_break_the_ice_scan:
  "fallbackIdiomDetection (Some IDIOMS_DICTIONARY) ice_sentence
     = \<lparr>hasIdiom = False, idiom = None, literal = None\<rparr>
   \<and> fallbackIdiomDetection (Some (IDIOMS_DICTIONARY @ [(''break the ice'', meaning)]))
         ice_sentence
     = \<lparr>hasIdiom = True, idiom = Some ''break the ice'', literal = Some meaning\<rparr>"
proof
  show "fallbackIdiomDetection (Some IDIOMS_DICTIONARY) ice_sentence
          = \<lparr>hasIdiom = False, idiom = None, literal = None\<rparr>"
    using fallbackIdiomDetection_no_match [OF ice_sentence_no_key]
    by (simp add: no_idiom_def)
next
  let ?d = "IDIOMS_DICTIONARY @ [(''break the ice'', meaning)]"
  have "(''break the ice'', meaning) \<in> set ?d" by simp
  from fallbackIdiomDetection_first_longest [OF this ice_sentence_has_phrase]
  obtain k v where r: "fallbackIdiomDetection (Some ?d) ice_sentence = found_idiom k v"
    and kv: "(k, v) \<in> set ?d"
    and m: "str_includes (toLowerCase ice_sentence) (toLowerCase k)"
    by blast
  have "(k, v) \<notin> set IDIOMS_DICTIONARY"
    using ice_sentence_no_key m by (auto simp: list_all_iff)
  with kv have "k = ''break the ice''" "v = meaning" by auto
  with r show "fallbackIdiomDetection (Some ?d) ice_sentence
      = \<lparr>hasIdiom = True, idiom = Some ''break the ice'', literal = Some meaning\<rparr>"
    by (simp add: found_idiom_def)
qed

text \<open>
  C7.  Dictionary-mode detection lower-cases the sentence and each key, scans the table
  longest key first and returns the first entry whose key occurs in the sentence as a
  substring, so the entry returned is a longest matching entry.  When an entry \<open>L\<close> of the table occurs in
  the sentence, some idiom is returned, no matching entry is longer than it, and it is not
  an entry shorter than \<open>L\<close>.
\<close>

theorem C7_longest_match_first:
  assumes "(L, vL) \<in> set dict"
      and "str_includes (toLowerCase sentence) (toLowerCase L)"
  shows "\<exists>k v. fallbackIdiomDetection (Some dict) sentence
                 = \<lparr>hasIdiom = True, idiom = Some k, literal = Some v\<rparr>
           \<and> find (\<lambda>e. str_includes (toLowerCase sentence) (toLowerCase (fst e)))
                 (sortedIdioms dict) = Some (k, v)
           \<and> (k, v) \<in> set dict
           \<and> (\<exists>pre post. toLowerCase sentence = pre @ toLowerCase k @ post)
           \<and> (\<forall>e \<in> set dict. str_includes (toLowerCase sentence) (toLowerCase (fst e))
                  \<longrightarrow> length (fst e) \<le> length k)
           \<and> (\<forall>S. length S < length L \<longrightarrow> k \<noteq> S)"
proof -
  from fallbackIdiomDetection_first_longest [OF assms]
  obtain k v where r: "fallbackIdiomDetection (Some dict) sentence = found_idiom k v"
    and f: "find (\<lambda>e. str_includes (toLowerCase sentence) (toLowerCase (fst e)))
                 (sortedIdioms dict) = Some (k, v)"
    and kv: "(k, v) \<in> set dict"
    and m: "str_includes (toLowerCase sentence) (toLowerCase k)"
    and mx: "\<forall>e \<in> set dict. str_includes (toLowerCase sentence) (toLowerCase (fst e))
                  \<longrightarrow> length (fst e) \<le> length k"
    by blast
  from mx assms have "length L \<le> length k" by fastforce
  then have ne: "\<forall>S. length S < length L \<longrightarrow> k \<noteq> S" by auto
  from m have sub: "\<exists>pre post. toLowerCase sentence = pre @ toLowerCase k @ post"
    by (simp only: str_includes_iff)
  from r f kv sub mx ne show ?thesis unfolding found_idiom_def by blast
qed

lemma nail_table_result:
  "fallbackIdiomDetection (Some nail_table) nail_sentence
     = \<lparr>hasIdiom = True, idiom = Some ''hit the nail on the head'',
        literal = Some ''do or say something exactly right''\<rparr>"
  by code_simp

theorem C7_longest_match_first_witness:
  "(''hit the nail on the head'', ''do or say something exactly right'') \<in> set nail_table
   \<and> str_includes (toLowerCase nail_sentence) (toLowerCase ''hit the nail on the head'')
   \<and> (\<exists>k v. fallbackIdiomDetection (Some nail_table) nail_sentence
                 = \<lparr>hasIdiom = True, idiom = Some k, literal = Some v\<rparr>
           \<and> k = ''hit the nail on the head''
           \<and> (\<forall>e \<in> set nail_table.
                  str_includes (toLowerCase nail_sentence) (toLowerCase (fst e))
                  \<longrightarrow> length (fst e) \<le> length k)
           \<and> (\<forall>S. length S < length ''hit the nail on the head'' \<longrightarrow> k \<noteq> S))"
proof -
  have h1: "(''hit the nail on the head'', ''do or say something exactly right'')
              \<in> set nail_table"
    by (simp add: nail_table_def)
  have h2: "str_includes (toLowerCase nail_sentence) (toLowerCase ''hit the nail on the head'')"
    by code_simp
  from C7_longest_match_first [OF h1 h2] nail_table_result h1 h2
  show ?thesis by auto
qed

text \<open>
  C10.  With the global idiom table absent, or present with no entry, the scan returns
  \<^verbatim>\<open>{hasIdiom: false}\<close> for every sentence.
\<close>

theorem C10_missing_dictionary:
  "fallbackIdiomDetection None sentence = \<lparr>hasIdiom = False, idiom = None, literal = None\<rparr>
   \<and> fallbackIdiomDetection (Some []) sentence
       = \<lparr>hasIdiom = False, idiom = None, literal = None\<rparr>"
  by (simp add: fallbackIdiomDetection_def no_idiom_def)

section \<open>Properties of the readability metrics\<close>

lemma clamp_in_range:
  "x \<noteq> NaN \<Longrightarrow> in_interval 0 100 (jmax (Fin 0) (jmin (Fin 100) (toFixed2 fixed x)))"
  by (cases x) auto

lemma clamp_NaN: "jmax (Fin 0) (jmin (Fin 100) (toFixed2 fixed NaN)) = NaN"
  by simp

lemma jdiv_zero_zero: "jdiv (num 0) (num 0) = NaN"
  by (simp add: num_def)

lemma jdiv_by_positive: "0 < n \<Longrightarrow> jdiv (num m) (num n) = Fin (of_nat m / of_nat n)"
  by (simp add: num_def)

lemma jdiv_positive_by_any: "0 < m \<Longrightarrow> jdiv (num m) (num n) \<noteq> NaN"
  by (simp add: num_def signed_inf_def)

lemma jsub_NaN_right: "jsub x NaN = NaN"
  by (cases x) (simp_all add: jsub_def)

lemma jmul_NaN_right: "jmul x NaN = NaN"
  by (cases x) simp_all

lemma jmul_const_not_NaN: "k \<noteq> 0 \<Longrightarrow> a \<noteq> NaN \<Longrightarrow> jmul (Fin k) a \<noteq> NaN"
  by (cases a) (simp_all add: signed_inf_def)

lemma jsub_const_not_NaN: "y \<noteq> NaN \<Longrightarrow> jsub (Fin c) y \<noteq> NaN"
  by (cases y) (simp_all add: jsub_def)

lemma jsub_Fin_not_NaN: "x \<noteq> NaN \<Longrightarrow> jsub x (jmul (Fin k) (Fin r)) \<noteq> NaN"
  by (cases x) (simp_all add: jsub_def)

lemma fleschScore_clamped:
  "fleschScore (calculateBasicMetrics fixed t)
     = jmax (Fin 0) (jmin (Fin 100) (toFixed2 fixed (flesch_raw t)))"
  by (simp only: calculateBasicMetrics_def Let_def metrics.select_convs flesch_raw_def)

text \<open>
  With no word in the text the syllable ratio is \<open>0/0\<close>, and so the Flesch score and the
  average word length are \<open>NaN\<close>, whatever the text.
\<close>

lemma no_words_NaN:
  assumes "words_of t = []"
  shows "wordCount (calculateBasicMetrics fixed t) = 0
       \<and> fleschScore (calculateBasicMetrics fixed t) = NaN
       \<and> avgWordLength (calculateBasicMetrics fixed t) = NaN"
proof -
  have "flesch_raw t = NaN"
    using assms by (simp only: flesch_raw_def list.size foldl_Nil jdiv_zero_zero jmul_NaN_right jsub_NaN_right)
  then have "fleschScore (calculateBasicMetrics fixed t) = NaN"
    by (simp only: fleschScore_clamped clamp_NaN)
  moreover have "wordCount (calculateBasicMetrics fixed t) = 0"
    using assms by (simp add: calculateBasicMetrics_def Let_def)
  moreover have "avgWordLength (calculateBasicMetrics fixed t) = NaN"
    using assms by (simp add: calculateBasicMetrics_def Let_def jdiv_zero_zero)
  ultimately show ?thesis by simp
qed

text \<open>With at least one word the score is a number between 0 and 100.\<close>

lemma some_words_flesch_in_range:
  assumes "words_of t \<noteq> []"
  shows "in_interval 0 100 (fleschScore (calculateBasicMetrics fixed t))"
proof -
  let ?n = "length (words_of t)"
  have n: "0 < ?n" using assms by simp
  have a: "jdiv (num ?n) (num (length (sentences_of t))) \<noteq> NaN"
    using n by (rule jdiv_positive_by_any)
  have r: "jdiv (num m) (num ?n) = Fin (of_nat m / of_nat ?n)" for m
    using n by (rule jdiv_by_positive)
  have "jmul (Fin (1015 / 1000)) (jdiv (num ?n) (num (length (sentences_of t)))) \<noteq> NaN"
    by (rule jmul_const_not_NaN [OF _ a]) simp
  then have "jsub (Fin (206835 / 1000))
      (jmul (Fin (1015 / 1000)) (jdiv (num ?n) (num (length (sentences_of t))))) \<noteq> NaN"
    by (rule jsub_const_not_NaN)
  then have "flesch_raw t \<noteq> NaN"
    unfolding flesch_raw_def r by (rule jsub_Fin_not_NaN)
  then show ?thesis
    unfolding fleschScore_clamped by (rule clamp_in_range)
qed

lemma empty_text_no_words: "words_of '''' = []"
  by (simp add: words_of_def split_regex_def)

lemma trim_empty: "trim [] = []"
  by (simp add: trim_def)

text \<open>
  C1.  The code at the empty text, which has no word: it returns, and the Flesch score it
  returns is \<open>NaN\<close>, as are the three averages; so is the score that
  \<^verbatim>\<open>analyzeComplexity\<close> returns.
\<close>

theorem C1_empty_text_NaN:
  "calculateBasicMetrics fixed ''''
     = \<lparr>wordCount = 0, sentenceCount = 0, paragraphCount = 0, avgWordLength = NaN,
        avgSentenceLength = NaN, avgParagraphLength = NaN, fleschScore = NaN,
        estimatedReadingTime = 0\<rparr>
   \<and> fleschScore (analyzeComplexity fixed '''') = NaN"
  by (simp add: calculateBasicMetrics_def analyzeComplexity_def words_of_def sentences_of_def
      paragraphs_of_def split_regex_def num_def jsub_def trim_empty metrics.defs analysis.defs)

text \<open>
  C2.  The code at the empty text: the Flesch score it returns is not a number between 0
  and 100.
\<close>

theorem C2_empty_text_flesch_not_in_range:
  "\<not> in_interval 0 100 (fleschScore (calculateBasicMetrics fixed ''''))"
  using no_words_NaN [OF empty_text_no_words] by simp

section \<open>Properties of the page queries\<close>

lemma ancestors_or_self_out: "\<not> i < length d \<Longrightarrow> ancestors_or_self d i = []"
  by (simp add: ancestors_or_self.simps)

lemma ancestors_or_self_unfold:
  "i < length d \<Longrightarrow>
     ancestors_or_self d i =
       i # (case parent (d ! i) of
              Child j \<Rightarrow> (if j < i then ancestors_or_self d j else [])
            | Root \<Rightarrow> []
            | NoParent \<Rightarrow> [])"
  by (rule trans [OF ancestors_or_self.simps]) simp


text \<open>The chain of an ancestor is part of the chain of the element.\<close>

lemma ancestors_or_self_trans:
  "h \<in> set (ancestors_or_self d i) \<Longrightarrow> a \<in> set (ancestors_or_self d h)
     \<Longrightarrow> a \<in> set (ancestors_or_self d i)"
proof (induction d i rule: ancestors_or_self.induct)
  case (1 d i)
  show ?case
  proof (cases "h = i")
    case True
    with "1.prems" show ?thesis by simp
  next
    case False
    from "1.prems"(1) have i: "i < length d"
      by (cases "i < length d") (simp_all add: ancestors_or_self_out)
    from "1.prems"(1) False
    have "h \<in> set (case parent (d ! i) of
              Child j \<Rightarrow> (if j < i then ancestors_or_self d j else [])
            | Root \<Rightarrow> []
            | NoParent \<Rightarrow> [])"
      by (simp add: ancestors_or_self_unfold [OF i])
    then obtain j where j: "parent (d ! i) = Child j" "j < i"
      and hj: "h \<in> set (ancestors_or_self d j)"
      by (cases "parent (d ! i)") (auto split: if_splits)
    from "1.IH" [OF i j hj "1.prems"(2)] have "a \<in> set (ancestors_or_self d j)" .
    with j show ?thesis
      by (simp add: ancestors_or_self_unfold [OF i])
  qed
qed

lemma closest_None_iff:
  "closest d i sels = None \<longleftrightarrow> (\<forall>k \<in> set (ancestors_or_self d i). \<not> matches_any (d ! k) sels)"
  by (auto simp: closest_def find_None_iff)

lemma matches_any_iff: "matches_any e sels \<longleftrightarrow> (\<exists>s \<in> set sels. matches e s)"
  by (simp add: matches_any_def list_ex_iff)

lemma closest_None_subset:
  "closest d i sels = None \<Longrightarrow> set sels' \<subseteq> set sels \<Longrightarrow> closest d i sels' = None"
  by (auto simp: closest_None_iff matches_any_iff)

lemma chunk_of_element: "chunk_of textOf d i = Some ch \<Longrightarrow> chunk_element ch = i"
  by (auto simp: chunk_of_def Let_def split: if_splits)

lemma chunk_of_unwanted: "chunk_of textOf d i = Some ch \<Longrightarrow> closest d i unwanted_selectors = None"
  by (auto simp: chunk_of_def Let_def split: if_splits)

text \<open>
  When the element has a header and an article among itself and its ancestors, the
  callback pushes a chunk exactly when the other tests pass.
\<close>

lemma chunk_of_article_header:
  assumes "closest d i [Tag ''header''] \<noteq> None" and "closest d i article_selectors \<noteq> None"
  shows "(chunk_of textOf d i \<noteq> None) = passes_other_tests textOf d i"
  using assms by (auto simp: chunk_of_def passes_other_tests_def Let_def)

lemma set_tl_subset: "x \<in> set (tl xs) \<Longrightarrow> x \<in> set xs"
  by (cases xs) auto

lemma chunkContent_elements:
  assumes "chunkContent textOf d = Inr chunks"
  shows "\<exists>c. chunk_container d = Some c
           \<and> chunks = List.map_filter (chunk_of textOf d) (descendants d c chunk_candidates)"
  using assms by (auto simp: chunkContent_def split: option.splits)

text \<open>
  C8.  No chunk is an element inside a \<^verbatim>\<open>nav\<close>, whatever its text.  A candidate inside
  a \<^verbatim>\<open>header\<close> that is itself inside an \<^verbatim>\<open>article\<close>, a \<^verbatim>\<open>main\<close> or an
  element with \<^verbatim>\<open>role="main"\<close> is seen as part of an article header, so the header test
  does not exclude it, and it becomes a chunk exactly when the other tests pass.
\<close>

theorem C8_nav_never_article_header_includable:
  assumes "chunkContent textOf d = Inr chunks"
  shows "(\<forall>i. closest d i [Tag ''nav''] \<noteq> None \<longrightarrow> i \<notin> chunk_element ` set chunks)
       \<and> (\<forall>c i h a.
             chunk_container d = Some c
             \<and> i \<in> set (descendants d c chunk_candidates)
             \<and> h \<in> set (ancestors_or_self d i) \<and> tagName (d ! h) = ''header''
             \<and> a \<in> set (tl (ancestors_or_self d h))
             \<and> matches_any (d ! a) [Tag ''article'', Tag ''main'', RoleIs ''main'']
           \<longrightarrow> closest d i [Tag ''header''] \<noteq> None
               \<and> closest d i article_selectors \<noteq> None
               \<and> ((i \<in> chunk_element ` set chunks) = passes_other_tests textOf d i))"
proof (intro conjI allI impI)
  fix i
  assume nav: "closest d i [Tag ''nav''] \<noteq> None"
  show "i \<notin> chunk_element ` set chunks"
  proof
    assume "i \<in> chunk_element ` set chunks"
    then obtain ch where ch: "ch \<in> set chunks" "chunk_element ch = i" by auto
    from chunkContent_elements [OF assms] ch(1) obtain j where "chunk_of textOf d j = Some ch"
      by (auto simp: map_filter_def)
    then have "chunk_element ch = j" "closest d j unwanted_selectors = None"
      by (rule chunk_of_element, rule chunk_of_unwanted)
    with ch(2) have "closest d i unwanted_selectors = None" by simp
    then have "closest d i [Tag ''nav''] = None"
      by (rule closest_None_subset) (simp add: unwanted_selectors_def)
    with nav show False by simp
  qed
next
  fix c i h a
  assume H: "chunk_container d = Some c
             \<and> i \<in> set (descendants d c chunk_candidates)
             \<and> h \<in> set (ancestors_or_self d i) \<and> tagName (d ! h) = ''header''
             \<and> a \<in> set (tl (ancestors_or_self d h))
             \<and> matches_any (d ! a) [Tag ''article'', Tag ''main'', RoleIs ''main'']"
  then have hi: "h \<in> set (ancestors_or_self d i)" and th: "tagName (d ! h) = ''header''"
    and ah: "a \<in> set (ancestors_or_self d h)"
    and ma: "matches_any (d ! a) [Tag ''article'', Tag ''main'', RoleIs ''main'']"
    by (auto intro: set_tl_subset)
  from hi th show hd: "closest d i [Tag ''header''] \<noteq> None"
    by (auto simp: closest_None_iff matches_any_iff)
  have ai: "a \<in> set (ancestors_or_self d i)"
    using hi ah by (rule ancestors_or_self_trans)
  from ma have "matches_any (d ! a) article_selectors"
    by (auto simp: matches_any_iff article_selectors_def)
  with ai show ar: "closest d i article_selectors \<noteq> None"
    by (auto simp: closest_None_iff)
  from chunkContent_elements [OF assms] H
  have chunks: "chunks = List.map_filter (chunk_of textOf d) (descendants d c chunk_candidates)"
    and cand: "i \<in> set (descendants d c chunk_candidates)"
    by auto
  have "(i \<in> chunk_element ` set chunks) = (chunk_of textOf d i \<noteq> None)"
  proof
    assume "i \<in> chunk_element ` set chunks"
    then obtain ch j where "chunk_of textOf d j = Some ch" "chunk_element ch = i"
      unfolding chunks by (auto simp: map_filter_def)
    then show "chunk_of textOf d i \<noteq> None"
      using chunk_of_element by fastforce
  next
    assume "chunk_of textOf d i \<noteq> None"
    then obtain ch where ch: "chunk_of textOf d i = Some ch" by auto
    then have "ch \<in> set chunks"
      unfolding chunks using cand by (force simp: map_filter_def)
    with chunk_of_element [OF ch] show "i \<in> chunk_element ` set chunks" by force
  qed
  then show "(i \<in> chunk_element ` set chunks) = passes_other_tests textOf d i"
    using chunk_of_article_header [OF hd ar] by simp
qed

lemma header_page_chunkContent:
  "chunkContent plain_text header_page = Inr header_page_chunks"
  by code_simp

lemma header_page_candidates:
  "chunk_container header_page = Some 2
   \<and> descendants header_page 2 chunk_candidates = [4, 6, 7]"
  by code_simp

lemma header_page_title:
  "5 \<in> set (ancestors_or_self header_page 6) \<and> tagName (header_page ! 5) = ''header''
   \<and> 2 \<in> set (tl (ancestors_or_self header_page 5))
   \<and> matches_any (header_page ! 2) [Tag ''article'', Tag ''main'', RoleIs ''main'']
   \<and> passes_other_tests plain_text header_page 6"
  by code_simp

lemma header_page_nav: "closest header_page 4 [Tag ''nav''] \<noteq> None"
  by code_simp

theorem C8_nav_never_article_header_includable_witness:
  "chunkContent plain_text header_page = Inr header_page_chunks
   \<and> closest header_page 4 [Tag ''nav''] \<noteq> None
   \<and> 4 \<notin> chunk_element ` set header_page_chunks
   \<and> chunk_container header_page = Some 2
   \<and> 6 \<in> set (descendants header_page 2 chunk_candidates)
   \<and> 5 \<in> set (ancestors_or_self header_page 6) \<and> tagName (header_page ! 5) = ''header''
   \<and> 2 \<in> set (tl (ancestors_or_self header_page 5))
   \<and> matches_any (header_page ! 2) [Tag ''article'', Tag ''main'', RoleIs ''main'']
   \<and> closest header_page 6 [Tag ''header''] \<noteq> None
   \<and> closest header_page 6 article_selectors \<noteq> None
   \<and> passes_other_tests plain_text header_page 6
   \<and> 6 \<in> chunk_element ` set header_page_chunks"
proof -
  note inst = C8_nav_never_article_header_includable [OF header_page_chunkContent]
  from inst have nav: "4 \<notin> chunk_element ` set header_page_chunks"
    using header_page_nav by blast
  have cand: "6 \<in> set (descendants header_page 2 chunk_candidates)"
    using header_page_candidates by simp
  from inst have "chunk_container header_page = Some 2
             \<and> 6 \<in> set (descendants header_page 2 chunk_candidates)
             \<and> 5 \<in> set (ancestors_or_self header_page 6)
             \<and> tagName (header_page ! 5) = ''header''
             \<and> 2 \<in> set (tl (ancestors_or_self header_page 5))
             \<and> matches_any (header_page ! 2) [Tag ''article'', Tag ''main'', RoleIs ''main'']
           \<longrightarrow> closest header_page 6 [Tag ''header''] \<noteq> None
               \<and> closest header_page 6 article_selectors \<noteq> None
               \<and> ((6 \<in> chunk_element ` set header_page_chunks)
                    = passes_other_tests plain_text header_page 6)"
    by blast
  with header_page_candidates header_page_title cand
  have "closest header_page 6 [Tag ''header''] \<noteq> None
      \<and> closest header_page 6 article_selectors \<noteq> None
      \<and> 6 \<in> chunk_element ` set header_page_chunks"
    by blast
  with nav cand header_page_chunkContent header_page_candidates header_page_title
    header_page_nav
  show ?thesis by blast
qed

section \<open>Properties of the transform pipeline\<close>

subsection \<open>Updating the store\<close>

lemma length_update_element [simp]: "length (update_element i f d) = length d"
  by (simp add: update_element_def)

lemma length_for_each [simp]: "length (for_each ns f d) = length d"
  unfolding for_each_def by (induction ns arbitrary: d) simp_all

lemma nth_update_element:
  "k < length d \<Longrightarrow> update_element i f d ! k = (if k = i then f (d ! k) else d ! k)"
  by (simp add: update_element_def)

lemma for_each_Cons: "for_each (n # ns) f d = for_each ns f (update_element n f d)"
  by (simp add: for_each_def)

lemma for_each_Nil [simp]: "for_each [] f d = d"
  by (simp add: for_each_def)

text \<open>A \<^verbatim>\<open>forEach\<close> over distinct elements applies the callback once to each of them.\<close>

lemma nth_for_each:
  "distinct ns \<Longrightarrow> k < length d \<Longrightarrow>
     for_each ns f d ! k = (if k \<in> set ns then f (d ! k) else d ! k)"
proof (induction ns arbitrary: d)
  case Nil
  then show ?case by simp
next
  case (Cons n ns)
  from Cons.prems have "n \<notin> set ns" "distinct ns" by simp_all
  with Cons.IH [of "update_element n f d"] Cons.prems(2) show ?case
    by (auto simp: for_each_Cons nth_update_element)
qed

lemma map_parent_update_element:
  "(\<And>e. parent (f e) = parent e) \<Longrightarrow> map parent (update_element i f d) = map parent d"
  by (simp add: update_element_def map_update list_update_same_conv)
    (metis length_map list_update_id map_update nth_map list_update_beyond not_le_imp_less)

lemma map_parent_for_each:
  "(\<And>e. parent (f e) = parent e) \<Longrightarrow> map parent (for_each ns f d) = map parent d"
proof (induction ns arbitrary: d)
  case Nil
  then show ?case by simp
next
  case (Cons n ns)
  then show ?case by (simp add: for_each_Cons map_parent_update_element)
qed


lemma connected_parent_cong:
  assumes "map parent d' = map parent d"
  shows "isConnected d' i = isConnected d i"
proof (induction i rule: less_induct)
  case (less i)
  from assms have len: "length d' = length d" by (metis length_map)
  show ?case
  proof (cases "i < length d")
    case False
    with len show ?thesis by (simp add: isConnected.simps)
  next
    case True
    with assms len have p: "parent (d' ! i) = parent (d ! i)" by (metis nth_map)
    show ?thesis
      using less.IH p True len
      by (subst isConnected.simps, subst (2) isConnected.simps) (simp split: parent_ref.splits)
  qed
qed

subsection \<open>The loop of a batch\<close>

lemma update_element_same: "update_element p (\<lambda>e. e) d = d"
  by (simp add: update_element_def)

lemma kind_step_page:
  "page (kind_step kind browser service n p w)
     = update_element p (round_element kind browser service n) (page w)"
proof (cases "service n (trim (textContent (text_of browser) (page w ! p)))")
  case Throws
  then show ?thesis
    by (simp add: kind_step_def marking_step_def plain_step_def round_element_def Let_def
        update_element_def)
next
  case (Returns s)
  then show ?thesis
    by (simp add: kind_step_def marking_step_def plain_step_def round_element_def Let_def
        update_element_def)
qed


lemma kind_step_flags:
  "simplificationLevel (kind_step kind browser service n p w) = simplificationLevel w
   \<and> expansionMode (kind_step kind browser service n p w) = expansionMode w"
  by (cases "service n (trim (textContent (text_of browser) (page w ! p)))")
    (simp_all add: kind_step_def marking_step_def plain_step_def Let_def)

lemma length_batch_loop:
  assumes "\<And>n p w. page (step n p w) = update_element p (g n) (page w)"
  shows "length (page (batch_loop step n ps w)) = length (page w)"
  by (induction ps arbitrary: n w) (simp_all add: assms)





lemma batch_loop_flags:
  "simplificationLevel (batch_loop (kind_step kind browser service) n ps w) = simplificationLevel w
   \<and> expansionMode (batch_loop (kind_step kind browser service) n ps w) = expansionMode w"
  by (induction ps arbitrary: n w) (simp_all add: kind_step_flags)

text \<open>Every batch is its loop over the substantial paragraphs of the container.\<close>

lemma apply_batch_loop:
  "apply_batch kind browser service w =
     (case findMainContainer (page w) of
        None \<Rightarrow> (Threw TypeError, w)
      | Some c \<Rightarrow>
          (Returned, batch_loop (kind_step kind browser service) 1
                       (findSubstantialParagraphs browser (page w) c) w))"
proof (cases "findMainContainer (page w)")
  case None
  then show ?thesis
    by (cases kind)
      (simp_all add: applyTextSimplification_def applyTextExpansion_def
        applyToneAdjustment_def applyActiveVoiceConversion_def applySentenceRestructuring_def
        marking_batch_def plain_batch_def)
next
  case (Some c)
  have empty: "descendants (page w) c [Tag ''p''] = [] \<Longrightarrow>
      findSubstantialParagraphs browser (page w) c = []"
    by (simp add: findSubstantialParagraphs_def)
  show ?thesis
  proof (cases "findSubstantialParagraphs browser (page w) c = []")
    case True
    with Some show ?thesis
      by (cases kind)
        (simp_all add: applyTextSimplification_def applyTextExpansion_def
          applyToneAdjustment_def applyActiveVoiceConversion_def
          applySentenceRestructuring_def marking_batch_def plain_batch_def Let_def)
  next
    case False
    with Some empty show ?thesis
      by (cases kind)
        (auto simp: applyTextSimplification_def applyTextExpansion_def
          applyToneAdjustment_def applyActiveVoiceConversion_def
          applySentenceRestructuring_def marking_batch_def plain_batch_def Let_def
          kind_step_def)
  qed
qed




subsection \<open>Queries and overlays\<close>

lemma distinct_querySelectorAll: "distinct (querySelectorAll d sels)"
  by (simp add: querySelectorAll_def)

lemma connected_in_range: "isConnected d i \<Longrightarrow> i < length d"
  by (subst (asm) isConnected.simps) (simp split: if_splits)

lemma set_querySelectorAll:
  "i \<in> set (querySelectorAll d sels) \<longleftrightarrow> isConnected d i \<and> matches_any (d ! i) sels"
  using connected_in_range by (auto simp: querySelectorAll_def)

lemma matches_any_Class [simp]: "matches_any e [Class c] = (c \<in> set (classList e))"
  by (simp add: matches_any_def)

lemma connected_unfold:
  "i < length d \<Longrightarrow>
     isConnected d i =
       (case parent (d ! i) of
          Root \<Rightarrow> True
        | NoParent \<Rightarrow> False
        | Child j \<Rightarrow> (if j < i then isConnected d j else False))"
  by (rule trans [OF isConnected.simps]) simp

lemma length_hideAllLoadingModals [simp]: "length (hideAllLoadingModals d) = length d"
  by (simp add: hideAllLoadingModals_def)

lemma nth_hideAllLoadingModals:
  "i < length d \<Longrightarrow>
     hideAllLoadingModals d ! i =
       (if isConnected d i \<and> loading_class \<in> set (classList (d ! i)) then remove_node (d ! i)
        else d ! i)"
  by (simp add: hideAllLoadingModals_def nth_for_each distinct_querySelectorAll
      set_querySelectorAll)

lemma classList_hideAllLoadingModals:
  "i < length d \<Longrightarrow> classList (hideAllLoadingModals d ! i) = classList (d ! i)"
  by (simp add: nth_hideAllLoadingModals remove_node_def)

text \<open>Removing the overlays takes elements out of the document and puts none in.\<close>

lemma connected_hideAllLoadingModals:
  "isConnected (hideAllLoadingModals d) i \<Longrightarrow> isConnected d i"
proof (induction i rule: less_induct)
  case (less i)
  from less.prems have i: "i < length d"
    using connected_in_range by fastforce
  then have i': "i < length (hideAllLoadingModals d)" by simp
  show ?case
  proof (cases "isConnected d i \<and> loading_class \<in> set (classList (d ! i))")
    case True
    then show ?thesis by simp
  next
    case False
    with i have same: "hideAllLoadingModals d ! i = d ! i"
      by (auto simp: nth_hideAllLoadingModals)
    from less.prems less.IH same show ?thesis
      by (simp add: connected_unfold [OF i] connected_unfold [OF i']
          split: parent_ref.splits if_splits)
  qed
qed


lemma no_overlay_hideAllLoadingModals:
  "querySelectorAll d [Class loading_class] = [] \<Longrightarrow> hideAllLoadingModals d = d"
  by (simp add: hideAllLoadingModals_def)

subsection \<open>Reversal\<close>

lemma restore_element_kinds:
  "restore_element browser Simplification = restore_markup_or_text browser simplified_marker"
  "restore_element browser Expansion = restore_markup_or_text browser expanded_marker"
  "restore_element browser ToneAdjustment = restore_markup browser tone_marker"
  "restore_element browser ActiveVoice = restore_markup browser active_voice_marker"
  "restore_element browser Restructuring = restore_markup browser restructured_marker"
  by (simp_all add: fun_eq_iff restore_element_def)

lemma remove_batch_unfold:
  "remove_batch browser kind w =
     w\<lparr>page :=
         for_each
           (querySelectorAll
              (if hides_overlays kind then hideAllLoadingModals (page w) else page w)
              [Class (marker_of kind)])
           (restore_element browser kind)
           (if hides_overlays kind then hideAllLoadingModals (page w) else page w)\<rparr>"
  by (cases kind)
    (simp_all add: removeSimplification_def removeExpansion_def removeToneAdjustment_def
      removeActiveVoice_def removeSentenceRestructuring_def restore_element_kinds Let_def)

lemma parent_restore_element [simp]: "parent (restore_element browser kind e) = parent e"
  by (simp add: restore_element_def restore_markup_or_text_def restore_markup_def Let_def
      remove_class_def set_innerHTML_def)

lemma classList_restore_element [simp]:
  "classList (restore_element browser kind e) = classList_remove (marker_of kind) (classList e)"
  by (simp add: restore_element_def restore_markup_or_text_def restore_markup_def Let_def
      remove_class_def set_innerHTML_def)

lemma marker_not_in_classList_remove [simp]: "m \<notin> set (classList_remove m cs)"
  by (simp add: classList_remove_def)

text \<open>After a reversal no element of the document carries the marker of the transform.\<close>

lemma remove_batch_clears_marker:
  "querySelectorAll (page (remove_batch browser kind w)) [Class (marker_of kind)] = []"
proof -
  define d where "d = (if hides_overlays kind then hideAllLoadingModals (page w) else page w)"
  define d' where "d' = for_each (querySelectorAll d [Class (marker_of kind)])
                          (restore_element browser kind) d"
  have page: "page (remove_batch browser kind w) = d'"
    by (simp add: remove_batch_unfold d_def d'_def)
  have par: "map parent d' = map parent d"
    unfolding d'_def by (rule map_parent_for_each) simp
  have "\<not> (isConnected d' i \<and> marker_of kind \<in> set (classList (d' ! i)))" for i
  proof
    assume a: "isConnected d' i \<and> marker_of kind \<in> set (classList (d' ! i))"
    then have c: "isConnected d i" using connected_parent_cong [OF par] by simp
    then have i: "i < length d" by (rule connected_in_range)
    have "d' ! i = (if i \<in> set (querySelectorAll d [Class (marker_of kind)])
                   then restore_element browser kind (d ! i) else d ! i)"
      unfolding d'_def using i by (simp add: nth_for_each distinct_querySelectorAll)
    with a c show False
      by (simp add: set_querySelectorAll split: if_splits)
  qed
  then have "querySelectorAll d' [Class (marker_of kind)] = []"
    by (simp add: querySelectorAll_def filter_empty_conv)
  with page show ?thesis by simp
qed

text \<open>
  C9, as stated, fails for \<^verbatim>\<open>removeSimplification\<close>: with no element carrying the
  simplification marker, but a loading overlay on the page, the call changes the page.
\<close>

theorem C9_overlay_counterexample:
  "querySelectorAll (page overlay_world) [Class simplified_marker] = []
   \<and> removeSimplification plain_browser overlay_world \<noteq> overlay_world"
  by code_simp

text \<open>
  C9, amended.  When no element of the document carries the marker of a transform, the
  reversal of that transform raises nothing and changes no element, except that it first
  takes the extension's loading overlays (the elements of class
  \<^verbatim>\<open>cogniread-loading\<close>) out of the document, which every reversal but that of the
  tone does; with no overlay on the page it changes nothing.
\<close>

theorem C9_reversal_of_inactive_transform:
  assumes "querySelectorAll (page w) [Class (marker_of kind)] = []"
  shows "remove_batch browser kind w
           = w\<lparr>page := (if hides_overlays kind then hideAllLoadingModals (page w)
                         else page w)\<rparr>
       \<and> (querySelectorAll (page w) [Class loading_class] = [] \<longrightarrow> remove_batch browser kind w = w)
       \<and> (\<forall>i < length (page w).
             \<not> (isConnected (page w) i \<and> loading_class \<in> set (classList (page w ! i)))
             \<longrightarrow> page (remove_batch browser kind w) ! i = page w ! i)"
proof -
  define d where "d = (if hides_overlays kind then hideAllLoadingModals (page w) else page w)"
  have none: "querySelectorAll d [Class (marker_of kind)] = []"
  proof -
    have "\<not> (isConnected d i \<and> marker_of kind \<in> set (classList (d ! i)))" for i
    proof
      assume a: "isConnected d i \<and> marker_of kind \<in> set (classList (d ! i))"
      then have "i < length d" using connected_in_range by blast
      then have i: "i < length (page w)" by (simp add: d_def split: if_splits)
      from a have c: "isConnected (page w) i"
        using connected_hideAllLoadingModals by (auto simp: d_def split: if_splits)
      from a i have "marker_of kind \<in> set (classList (page w ! i))"
        by (simp add: d_def classList_hideAllLoadingModals split: if_splits)
      with c have "i \<in> set (querySelectorAll (page w) [Class (marker_of kind)])"
        by (simp add: set_querySelectorAll)
      with assms show False by simp
    qed
    then show ?thesis by (simp add: querySelectorAll_def filter_empty_conv)
  qed
  have eq: "remove_batch browser kind w = w\<lparr>page := d\<rparr>"
    using none by (simp add: remove_batch_unfold d_def)
  have "remove_batch browser kind w = w" if "querySelectorAll (page w) [Class loading_class] = []"
    using eq no_overlay_hideAllLoadingModals [OF that] by (simp add: d_def)
  moreover have "page (remove_batch browser kind w) ! i = page w ! i"
    if "i < length (page w)"
      "\<not> (isConnected (page w) i \<and> loading_class \<in> set (classList (page w ! i)))" for i
    using that eq by (auto simp: d_def nth_hideAllLoadingModals)
  ultimately show ?thesis using eq by (simp add: d_def)
qed

lemma clean_world_inactive:
  "querySelectorAll (page clean_world) [Class (marker_of Simplification)] = []
   \<and> querySelectorAll (page clean_world) [Class loading_class] = []"
  by code_simp

theorem C9_reversal_of_inactive_transform_witness:
  "querySelectorAll (page clean_world) [Class (marker_of Simplification)] = []
   \<and> querySelectorAll (page clean_world) [Class loading_class] = []
   \<and> remove_batch plain_browser Simplification clean_world
       = clean_world\<lparr>page := hideAllLoadingModals (page clean_world)\<rparr>
   \<and> removeSimplification plain_browser clean_world = clean_world"
proof -
  from clean_world_inactive
  have h: "querySelectorAll (page clean_world) [Class (marker_of Simplification)] = []"
    and o: "querySelectorAll (page clean_world) [Class loading_class] = []"
    by simp_all
  note inst = C9_reversal_of_inactive_transform [OF h]
  have r1: "remove_batch plain_browser Simplification clean_world
          = clean_world\<lparr>page := hideAllLoadingModals (page clean_world)\<rparr>"
    using inst [THEN conjunct1] by simp
  have r2: "removeSimplification plain_browser clean_world = clean_world"
    using inst [THEN conjunct2, THEN conjunct1, rule_format, OF o] by simp
  from h o r1 r2 show ?thesis by (intro conjI)
qed

subsection \<open>A failed call\<close>



lemma marker_in_classList_add [simp]: "m \<in> set (classList_add m cs)"
  by (simp add: classList_add_def)







subsection \<open>A batch and its reversal\<close>







lemma parent_round_element [simp]:
  "parent (round_element kind browser service n e) = parent e"
  by (cases "service n (trim (textContent (text_of browser) e))")
    (simp_all add: round_element_def store_and_replace_def keep_but_mark_def add_class_def
      set_innerHTML_def)

lemma map_parent_batch_loop:
  "map parent (page (batch_loop (kind_step kind browser service) n ps w)) = map parent (page w)"
  by (induction ps arbitrary: n w) (simp_all add: kind_step_page map_parent_update_element)

lemma map_parent_apply_batch:
  "map parent (page (snd (apply_batch kind browser service w))) = map parent (page w)"
  by (simp add: apply_batch_loop map_parent_batch_loop split: option.splits)

text \<open>A batch adds its own marker to class lists and nothing else.\<close>

lemma other_class_round_element:
  "m \<noteq> marker_of kind \<Longrightarrow>
     (m \<in> set (classList (round_element kind browser service n e))) = (m \<in> set (classList e))"
  by (cases "service n (trim (textContent (text_of browser) e))")
    (auto simp: round_element_def store_and_replace_def keep_but_mark_def add_class_def
      set_innerHTML_def classList_add_def)

lemma other_class_batch_loop:
  assumes "m \<noteq> marker_of kind"
  shows "i < length (page w) \<Longrightarrow>
     (m \<in> set (classList (page (batch_loop (kind_step kind browser service) n ps w) ! i)))
       = (m \<in> set (classList (page w ! i)))"
proof (induction ps arbitrary: n w)
  case Nil
  then show ?case by simp
next
  case (Cons p ps)
  let ?w1 = "kind_step kind browser service n p w"
  have "i < length (page ?w1)" using Cons.prems by (simp add: kind_step_page)
  from Cons.IH [OF this, of "Suc n"] Cons.prems show ?case
    by (simp add: kind_step_page nth_update_element other_class_round_element [OF assms])
qed

lemma other_class_apply_batch:
  "m \<noteq> marker_of kind \<Longrightarrow> i < length (page w) \<Longrightarrow>
     (m \<in> set (classList (page (snd (apply_batch kind browser service w)) ! i)))
       = (m \<in> set (classList (page w ! i)))"
  by (simp add: apply_batch_loop other_class_batch_loop split: option.splits)

lemma length_apply_batch [simp]:
  "length (page (snd (apply_batch kind browser service w))) = length (page w)"
  using map_parent_apply_batch [of kind browser service w] by (metis length_map)

text \<open>The elements of the document that carry another class are the same after a batch.\<close>

lemma other_class_query_apply_batch:
  assumes "m \<noteq> marker_of kind"
  shows "querySelectorAll (page (snd (apply_batch kind browser service w))) [Class m]
           = querySelectorAll (page w) [Class m]"
proof -
  let ?d' = "page (snd (apply_batch kind browser service w))"
  have "(isConnected ?d' i \<and> m \<in> set (classList (?d' ! i)))
          = (isConnected (page w) i \<and> m \<in> set (classList (page w ! i)))" for i
    using connected_parent_cong [OF map_parent_apply_batch, of kind browser service w i]
      other_class_apply_batch [OF assms, of i w browser service] connected_in_range [of "page w" i]
    by auto
  then show ?thesis by (simp add: querySelectorAll_def)
qed









text \<open>
  The condition on the markup is needed.  In a browser that ignores a line feed that comes
  first in a \<^verbatim>\<open>textarea\<close>, a paragraph whose markup holds such a line feed meets the other
  conditions, its call returns, and the reversal leaves it without the line feed.
\<close>

lemma textarea_newline_not_restored:
  "batch_paragraphs newline_browser form_world = [3]
   \<and> shorten (Suc 0) (trim (textContent (text_of newline_browser) (page form_world ! 3)))
       = Returns ''A short text of a few plain words.''
   \<and> text_of newline_browser [] = []
   \<and> closest (page form_world) 3 [Class loading_class] = None
   \<and> innerHTML (page form_world ! 3)
       = ''Write your answer in this box: <textarea>'' @ [CHR 0x0A] @ ''abc</textarea>''
   \<and> innerHTML
       (page (removeSimplification newline_browser
                (snd (applyTextSimplification newline_browser shorten form_world))) ! 3)
       = ''Write your answer in this box: <textarea>abc</textarea>''"
  by code_simp

subsection \<open>Simplify and expand\<close>

lemma query_class_update_element:
  assumes "\<And>e. parent (f e) = parent e" and "\<And>e. classList (f e) = classList e"
  shows "querySelectorAll (update_element i f d) [Class m] = querySelectorAll d [Class m]"
proof -
  have "(isConnected (update_element i f d) k \<and> m \<in> set (classList (update_element i f d ! k)))
          = (isConnected d k \<and> m \<in> set (classList (d ! k)))" for k
    using connected_parent_cong [OF map_parent_update_element, of f i d k]
      connected_in_range [of d k] assms
    by (auto simp: nth_update_element split: if_splits)
  then show ?thesis by (simp add: querySelectorAll_def)
qed

text \<open>
  Switching expansion on while a simplification level is set reverses the simplification
  first: afterwards the level is 0 and no element of the document carries the
  simplification marker, whether the call then runs the expansion batch or throws at the
  slider lookup.
\<close>

lemma toggleExpansionMode_reverses_simplification:
  assumes "0 < simplificationLevel w"
  shows "querySelectorAll (page (snd (toggleExpansionMode browser service True w)))
           [Class simplified_marker] = []
       \<and> simplificationLevel (snd (toggleExpansionMode browser service True w)) = 0"
proof -
  define w2 where
    "w2 = (removeSimplification browser (w\<lparr>expansionMode := True\<rparr>))\<lparr>simplificationLevel := 0\<rparr>"
  have q2: "querySelectorAll (page w2) [Class simplified_marker] = []"
    using remove_batch_clears_marker [of browser Simplification "w\<lparr>expansionMode := True\<rparr>"]
    by (simp add: w2_def)
  have l2: "simplificationLevel w2 = 0" by (simp add: w2_def)
  have ne: "simplified_marker \<noteq> marker_of Expansion"
    by (simp add: simplified_marker_def expanded_marker_def)
  have expand: "querySelectorAll (page (snd (applyTextExpansion browser service w3)))
                  [Class simplified_marker] = []
      \<and> simplificationLevel (snd (applyTextExpansion browser service w3)) = 0"
    if "querySelectorAll (page w3) [Class simplified_marker] = []"
      "simplificationLevel w3 = 0" for w3
    using that other_class_query_apply_batch [OF ne, of browser service w3]
      batch_loop_flags [of Expansion browser service 1 _ w3]
      apply_batch_loop [of Expansion browser service w3]
    by (auto split: option.splits)
  show ?thesis
  proof (cases "getElementById (page w2) ''simplification-slider''")
    case None
    with assms q2 l2 show ?thesis
      by (simp add: toggleExpansionMode_def Let_def w2_def [symmetric])
  next
    case slider: (Some sl)
    show ?thesis
    proof (cases "getElementById (page w2) ''simplification-label''")
      case None
      with slider assms q2 l2 show ?thesis
        by (simp add: toggleExpansionMode_def Let_def w2_def [symmetric])
    next
      case (Some label)
      define w3 where
        "w3 = w2\<lparr>page := update_element label
                   (\<lambda>e. e\<lparr>innerHTML := escapeHtml ''Simplification: Off''\<rparr>) (page w2)\<rparr>"
      have "querySelectorAll (page w3) [Class simplified_marker] = []"
        "simplificationLevel w3 = 0"
        using q2 l2 by (simp_all add: w3_def query_class_update_element)
      from expand [OF this] slider Some assms show ?thesis
        by (simp add: toggleExpansionMode_def Let_def w2_def [symmetric] w3_def [symmetric])
    qed
  qed
qed

text \<open>
  The other direction is missing.  Setting a simplification level reverses and reapplies
  simplification only: on a page without loading overlay, the elements of the document
  that carry the expansion marker are the same before and after, and the expansion flag is
  as it was.
\<close>

lemma other_class_query_remove_batch:
  assumes "m \<noteq> marker_of kind"
      and "querySelectorAll (page w) [Class loading_class] = []"
  shows "querySelectorAll (page (remove_batch browser kind w)) [Class m]
           = querySelectorAll (page w) [Class m]"
proof -
  define ts where "ts = querySelectorAll (page w) [Class (marker_of kind)]"
  have page: "page (remove_batch browser kind w) = for_each ts (restore_element browser kind) (page w)"
    using no_overlay_hideAllLoadingModals [OF assms(2)]
    by (simp add: remove_batch_unfold ts_def)
  have par: "map parent (for_each ts (restore_element browser kind) (page w)) = map parent (page w)"
    by (rule map_parent_for_each) simp
  have "(isConnected (for_each ts (restore_element browser kind) (page w)) i
           \<and> m \<in> set (classList (for_each ts (restore_element browser kind) (page w) ! i)))
          = (isConnected (page w) i \<and> m \<in> set (classList (page w ! i)))" for i
    using connected_parent_cong [OF par, of i] connected_in_range [of "page w" i] assms(1)
    by (auto simp: nth_for_each ts_def distinct_querySelectorAll classList_remove_def
        split: if_splits)
  then show ?thesis by (simp add: page querySelectorAll_def)
qed

lemma expansionMode_remove_batch [simp]:
  "expansionMode (remove_batch browser kind w) = expansionMode w"
  by (simp add: remove_batch_unfold)

lemma applySimplification_keeps_expansion:
  assumes "querySelectorAll (page w) [Class loading_class] = []"
  shows "querySelectorAll (page (snd (applySimplification browser service level w)))
           [Class expanded_marker]
           = querySelectorAll (page w) [Class expanded_marker]
       \<and> expansionMode (snd (applySimplification browser service level w)) = expansionMode w"
proof -
  have ne: "expanded_marker \<noteq> marker_of Simplification"
    by (simp add: simplified_marker_def expanded_marker_def)
  define w1 where "w1 = removeSimplification browser w"
  have q1: "querySelectorAll (page w1) [Class expanded_marker]
              = querySelectorAll (page w) [Class expanded_marker]"
    using other_class_query_remove_batch [OF ne assms, of browser] by (simp add: w1_def)
  have e1: "expansionMode w1 = expansionMode w"
    using expansionMode_remove_batch [of browser Simplification w] by (simp add: w1_def)
  show ?thesis
  proof (cases "level = 0")
    case True
    with q1 e1 show ?thesis
      by (simp add: applySimplification_def Let_def w1_def [symmetric])
  next
    case False
    have "querySelectorAll
            (page (snd (applyTextSimplification browser (service (levelName level)) w1)))
            [Class expanded_marker] = querySelectorAll (page w1) [Class expanded_marker]"
      using other_class_query_apply_batch [OF ne, of browser "service (levelName level)" w1]
      by simp
    moreover have "expansionMode (snd (applyTextSimplification browser (service (levelName level)) w1))
                     = expansionMode w1"
      using batch_loop_flags [of Simplification browser "service (levelName level)" 1 _ w1]
        apply_batch_loop [of Simplification browser "service (levelName level)" w1]
      by (auto split: option.splits)
    ultimately show ?thesis
      using False q1 e1 by (simp add: applySimplification_def Let_def w1_def [symmetric])
  qed
qed

text \<open>
  C4.  The code on a page where expansion is active: setting a simplification level runs
  the simplification batch without reversing the expansion, so both paragraphs keep the
  expansion marker, and the first now carries both markers.
\<close>

theorem C4_simplification_keeps_expansion:
  "expansionMode expanded_world
   \<and> querySelectorAll (page expanded_world) [Class expanded_marker] = [3, 4]
   \<and> fst (applySimplification plain_browser (\<lambda>level. shorten) 2 expanded_world) = Returned
   \<and> querySelectorAll
       (page (snd (applySimplification plain_browser (\<lambda>level. shorten) 2 expanded_world)))
       [Class expanded_marker] = [3, 4]
   \<and> classList (page (snd (applySimplification plain_browser (\<lambda>level. shorten) 2 expanded_world)) ! 3)
       = [''cogniread-expanded-text'', ''cogniread-simplified-text'']
   \<and> expansionMode (snd (applySimplification plain_browser (\<lambda>level. shorten) 2 expanded_world))"
  by code_simp


end
